theory Spec2Isabelle
  imports Main
begin

section \<open>Legacy authcrypt: the Encrypt path of \<open>encrypt.go\<close>\<close>

subsection \<open>Bytes, errors and results\<close>

text \<open>
  A Go \<open>[]byte\<close> and a Go \<open>string\<close> are both sequences of 8-bit bytes, and the
  conversions \<open>[]byte(s)\<close> and \<open>string(b)\<close> keep the sequence. Both are modelled by
  \<open>char list\<close>: a \<open>char\<close> of HOL is one byte.
\<close>

type_synonym bytes = string

text \<open>
  A Go \<open>error\<close> value is modelled by its message; \<open>errors.New m\<close> is \<open>GoError m\<close>.
  A run-time panic (a slice expression out of range) does not return: it is the
  separate constructor \<open>Panic\<close>. A call that returns \<open>(nil, err)\<close> is \<open>Inl err\<close>, a
  call that returns \<open>(v, nil)\<close> is \<open>Inr v\<close>.
\<close>

datatype error = GoError string | Panic string

text \<open>
  The randomness source and the key management service are injected into the
  \<open>Crypter\<close> and have state of their own. That state is the world \<open>'w\<close>, threaded
  through every call made on them.
\<close>

type_synonym ('w, 'a) action = "'w \<Rightarrow> (error + 'a) \<times> 'w"

definition andThen :: "('w, 'a) action \<Rightarrow> ('a \<Rightarrow> ('w, 'b) action) \<Rightarrow> ('w, 'b) action" where
  "andThen m f w = (case m w of (Inl err, w') \<Rightarrow> (Inl err, w') | (Inr a, w') \<Rightarrow> f a w')"

definition return_ok :: "'a \<Rightarrow> ('w, 'a) action" where
  "return_ok a w = (Inr a, w)"

definition return_err :: "error \<Rightarrow> ('w, 'a) action" where
  "return_err err w = (Inl err, w)"

definition pure_call :: "error + 'a \<Rightarrow> ('w, 'a) action" where
  "pure_call r w = (r, w)"

subsection \<open>Wire structures\<close>

record recipientHeader =
  KID :: string
  Sender :: string
  IV :: string

record recipient =
  EncryptedKey :: string
  Header :: recipientHeader

record protected =
  Enc :: string
  Typ :: string
  Alg :: string
  Recipients :: "recipient list"

record legacyEnvelope =
  Protected :: string
  EnvIV :: string
  CipherText :: string
  Tag :: string

datatype json = JString string | JArray "json list" | JObject "(string \<times> json) list"

text \<open>
  Modelled from the spec: the declarations of the four structs, with their JSON field
  names, are in a file of the package that is not among the sources. The field names
  and their order are those of the wire format of the specification (section 6).
\<close>

definition recipientHeader_json :: "recipientHeader \<Rightarrow> json" where
  "recipientHeader_json h =
     JObject [(''kid'', JString (KID h)), (''sender'', JString (Sender h)), (''iv'', JString (IV h))]"

definition recipient_json :: "recipient \<Rightarrow> json" where
  "recipient_json r =
     JObject [(''encrypted_key'', JString (EncryptedKey r)),
              (''header'', recipientHeader_json (Header r))]"

definition protected_json :: "protected \<Rightarrow> json" where
  "protected_json p =
     JObject [(''enc'', JString (Enc p)), (''typ'', JString (Typ p)), (''alg'', JString (Alg p)),
              (''recipients'', JArray (map recipient_json (Recipients p)))]"

definition legacyEnvelope_json :: "legacyEnvelope \<Rightarrow> json" where
  "legacyEnvelope_json e =
     JObject [(''protected'', JString (Protected e)), (''iv'', JString (EnvIV e)),
              (''ciphertext'', JString (CipherText e)), (''tag'', JString (Tag e))]"

subsection \<open>The collaborators\<close>

text \<open>
  \<open>chacha.New\<close> returns an AEAD object; the only method called on it is
  \<open>Seal(nil, nonce, plaintext, additionalData)\<close>, so the object is that function.
\<close>

type_synonym aead = "bytes \<Rightarrow> bytes \<Rightarrow> bytes \<Rightarrow> bytes"

text \<open>
  The box made by \<open>kms.NewCryptoBox\<close>: \<open>Easy payload nonce theirPub myKey\<close> and
  \<open>Seal payload theirEncPub randSource\<close>. Both go through the key management service,
  and \<open>Seal\<close> reads the randomness source, so both act on the world.
\<close>

record 'w box =
  Easy :: "bytes \<Rightarrow> bytes \<Rightarrow> bytes \<Rightarrow> bytes \<Rightarrow> ('w, bytes) action"
  Seal :: "bytes \<Rightarrow> bytes \<Rightarrow> ('w, bytes) action"

text \<open>
  Everything \<open>encrypt.go\<close> calls and does not define: the two injected fields of the
  \<open>Crypter\<close> (the randomness source and the key management service), and the functions
  of the imported packages. They are parameters of the model.
  \<open>randSource_Read n\<close> is a \<open>Read\<close> into a buffer of \<open>n\<close> bytes: it yields the bytes
  the source delivered, or the source's error.
\<close>

record 'w Crypter =
  randSource_Read :: "nat \<Rightarrow> ('w, bytes) action"
  kms_ConvertToEncryptionKey :: "bytes \<Rightarrow> ('w, bytes) action"
  kms_NewCryptoBox :: "('w, 'w box) action"
  cryptoutil_PublicEd25519toCurve25519 :: "bytes \<Rightarrow> error + bytes"
  base58_Encode :: "bytes \<Rightarrow> string"
  base64_EncodeToString :: "bytes \<Rightarrow> string"
  json_Marshal :: "json \<Rightarrow> error + bytes"
  chacha_New :: "bytes \<Rightarrow> error + aead"

definition chacha_NonceSize :: nat where "chacha_NonceSize = 12"
definition chacha_KeySize :: nat where "chacha_KeySize = 32"
definition poly1305_TagSize :: nat where "poly1305_TagSize = 16"

text \<open>
  \<open>_, err = c.randSource.Read(buf)\<close> on a zeroed buffer of \<open>n\<close> bytes: the count of
  bytes read is dropped, so after a read without error the buffer holds what the
  source delivered (at most \<open>n\<close> bytes), followed by the zero bytes it did not fill.
\<close>

definition Read :: "'w Crypter \<Rightarrow> nat \<Rightarrow> ('w, bytes) action" where
  "Read c n =
     andThen (randSource_Read c n)
       (\<lambda>got. return_ok (take n got @ replicate (n - length got) (CHR 0x00)))"

subsection \<open>The functions of \<open>encrypt.go\<close>\<close>

text \<open>\<open>buildRecipient\<close>: the data one recipient needs to decrypt the message.\<close>

definition buildRecipient ::
  "'w Crypter \<Rightarrow> bytes \<Rightarrow> bytes \<Rightarrow> bytes \<Rightarrow> ('w, recipient) action" where
  "buildRecipient c cek senderKey recKey =
     andThen (Read c 24) (\<lambda>nonce.
     andThen (kms_ConvertToEncryptionKey c senderKey) (\<lambda>senderEncKey.
     andThen (pure_call (cryptoutil_PublicEd25519toCurve25519 c recKey)) (\<lambda>recEncKey.
     andThen (kms_NewCryptoBox c) (\<lambda>box.
     andThen (Easy box cek nonce recEncKey senderEncKey) (\<lambda>encCEK.
     andThen (Seal box (base58_Encode c senderKey) recEncKey) (\<lambda>encSender.
     return_ok
       \<lparr>EncryptedKey = base64_EncodeToString c encCEK,
        Header = \<lparr>KID = base58_Encode c recKey,
                  Sender = base64_EncodeToString c encSender,
                  IV = base64_EncodeToString c nonce\<rparr>\<rparr>))))))"

text \<open>
  \<open>buildRecipients\<close>: the loop \<open>for i, recKey := range recPubKeys\<close> over the slice
  \<open>encodedRecipients\<close>, made with one zero-valued entry per key. The first error
  leaves the loop and the function.
\<close>

definition zero_recipient :: recipient where
  "zero_recipient = \<lparr>EncryptedKey = [], Header = \<lparr>KID = [], Sender = [], IV = []\<rparr>\<rparr>"

fun buildRecipients_loop ::
  "'w Crypter \<Rightarrow> bytes \<Rightarrow> bytes \<Rightarrow> (nat \<times> bytes) list \<Rightarrow> recipient list \<Rightarrow>
   ('w, recipient list) action" where
  "buildRecipients_loop c cek senderKey [] encodedRecipients = return_ok encodedRecipients"
| "buildRecipients_loop c cek senderKey ((i, recKey) # rest) encodedRecipients =
     andThen (buildRecipient c cek senderKey recKey) (\<lambda>r.
     buildRecipients_loop c cek senderKey rest (encodedRecipients[i := r]))"

definition buildRecipients ::
  "'w Crypter \<Rightarrow> bytes \<Rightarrow> bytes \<Rightarrow> bytes list \<Rightarrow> ('w, recipient list) action" where
  "buildRecipients c cek senderKey recPubKeys =
     buildRecipients_loop c cek senderKey (enumerate 0 recPubKeys)
       (replicate (length recPubKeys) zero_recipient)"

text \<open>
  \<open>buildEnvelope\<close>. The two slice expressions \<open>symPld[len(symPld)-16:]\<close> and
  \<open>symPld[0:len(symPld)-16]\<close> panic when the sealed payload is shorter than the tag.
\<close>

definition buildEnvelope ::
  "'w Crypter \<Rightarrow> bytes \<Rightarrow> bytes \<Rightarrow> bytes \<Rightarrow> protected \<Rightarrow> ('w, bytes) action" where
  "buildEnvelope c nonce payload cek p =
     andThen (pure_call (json_Marshal c (protected_json p))) (\<lambda>protectedBytes.
     let protectedB64 = base64_EncodeToString c protectedBytes in
     andThen (pure_call (chacha_New c cek)) (\<lambda>chachaCipher.
     let symPld = chachaCipher nonce payload protectedB64 in
     if length symPld < poly1305_TagSize
     then return_err (Panic ''slice bounds out of range'')
     else
       let tag = drop (length symPld - poly1305_TagSize) symPld;
           cipherText = take (length symPld - poly1305_TagSize) symPld;
           env = \<lparr>Protected = protectedB64,
                  EnvIV = base64_EncodeToString c nonce,
                  CipherText = base64_EncodeToString c cipherText,
                  Tag = base64_EncodeToString c tag\<rparr>
       in pure_call (json_Marshal c (legacyEnvelope_json env))))"

text \<open>The loop of \<open>Encrypt\<close> that fills \<open>recKeys\<close>.\<close>

fun recKeys_loop :: "'w Crypter \<Rightarrow> (nat \<times> bytes) list \<Rightarrow> string list \<Rightarrow> string list" where
  "recKeys_loop c [] recKeys = recKeys"
| "recKeys_loop c ((i, key) # rest) recKeys = recKeys_loop c rest (recKeys[i := base58_Encode c key])"

definition Encrypt ::
  "'w Crypter \<Rightarrow> bytes \<Rightarrow> bytes \<Rightarrow> bytes list \<Rightarrow> ('w, bytes) action" where
  "Encrypt c payload sender recipientPubKeys =
     (if length recipientPubKeys = 0
      then return_err (GoError ''empty recipients keys, must have at least one recipient'')
      else
        andThen (Read c chacha_NonceSize) (\<lambda>nonce.
        andThen (Read c chacha_KeySize) (\<lambda>cek.
        let recKeys = recKeys_loop c (enumerate 0 recipientPubKeys)
                        (replicate (length recipientPubKeys) [])
        in
        andThen (buildRecipients c cek sender recipientPubKeys) (\<lambda>recipients.
        let p = \<lparr>Enc = ''chacha20poly1305_ietf'', Typ = ''JWM/1.0'', Alg = ''Authcrypt'',
                 Recipients = recipients\<rparr>
        in buildEnvelope c nonce payload cek p))))"

text \<open>\<open>Encrypt\<close> with the construction of \<open>recKeys\<close> (lines 46 to 49) removed.\<close>

definition Encrypt_without_recKeys ::
  "'w Crypter \<Rightarrow> bytes \<Rightarrow> bytes \<Rightarrow> bytes list \<Rightarrow> ('w, bytes) action" where
  "Encrypt_without_recKeys c payload sender recipientPubKeys =
     (if length recipientPubKeys = 0
      then return_err (GoError ''empty recipients keys, must have at least one recipient'')
      else
        andThen (Read c chacha_NonceSize) (\<lambda>nonce.
        andThen (Read c chacha_KeySize) (\<lambda>cek.
        andThen (buildRecipients c cek sender recipientPubKeys) (\<lambda>recipients.
        let p = \<lparr>Enc = ''chacha20poly1305_ietf'', Typ = ''JWM/1.0'', Alg = ''Authcrypt'',
                 Recipients = recipients\<rparr>
        in buildEnvelope c nonce payload cek p))))"

subsection \<open>Decrypt\<close>

text \<open>
  Modelled from the spec: \<open>Decrypt\<close> and what it calls are code of the package that is
  not among the sources. The definitions below follow section 4.3 of the specification
  step by step, with the error kinds of its section 7 and the collaborator contracts of
  its section 6 (\<open>SealOpen\<close>, \<open>EasyOpen\<close>, the key converter, the opening of the
  cipher, the decoders). \<open>Encrypt\<close> seals the base58 text of the sender key, so the
  sender key is recovered by decoding what was unsealed.
\<close>

datatype decrypt_error =
  SerializationFailure | RecipientNotFound | KeyConversionFailure | BoxOperationFailure
  | AuthenticationFailure

definition string_field :: "string \<Rightarrow> json \<Rightarrow> string option" where
  "string_field name j =
     (case j of
        JObject kvs \<Rightarrow> (case map_of kvs name of Some (JString s) \<Rightarrow> Some s | _ \<Rightarrow> None)
      | _ \<Rightarrow> None)"

definition object_field :: "string \<Rightarrow> json \<Rightarrow> json option" where
  "object_field name j = (case j of JObject kvs \<Rightarrow> map_of kvs name | _ \<Rightarrow> None)"

definition legacyEnvelope_of_json :: "json \<Rightarrow> legacyEnvelope option" where
  "legacyEnvelope_of_json j =
     (case (string_field ''protected'' j, string_field ''iv'' j,
            string_field ''ciphertext'' j, string_field ''tag'' j) of
        (Some p, Some i, Some c, Some t) \<Rightarrow>
          Some \<lparr>Protected = p, EnvIV = i, CipherText = c, Tag = t\<rparr>
      | _ \<Rightarrow> None)"

definition recipientHeader_of_json :: "json \<Rightarrow> recipientHeader option" where
  "recipientHeader_of_json j =
     (case (string_field ''kid'' j, string_field ''sender'' j, string_field ''iv'' j) of
        (Some k, Some s, Some i) \<Rightarrow> Some \<lparr>KID = k, Sender = s, IV = i\<rparr>
      | _ \<Rightarrow> None)"

definition recipient_of_json :: "json \<Rightarrow> recipient option" where
  "recipient_of_json j =
     (case (string_field ''encrypted_key'' j, object_field ''header'' j) of
        (Some k, Some hj) \<Rightarrow>
          (case recipientHeader_of_json hj of
             Some h \<Rightarrow> Some \<lparr>EncryptedKey = k, Header = h\<rparr>
           | None \<Rightarrow> None)
      | _ \<Rightarrow> None)"

fun recipients_of_json :: "json list \<Rightarrow> recipient list option" where
  "recipients_of_json [] = Some []"
| "recipients_of_json (j # js) =
     (case recipient_of_json j of
        None \<Rightarrow> None
      | Some r \<Rightarrow> (case recipients_of_json js of None \<Rightarrow> None | Some rs \<Rightarrow> Some (r # rs)))"

definition protected_of_json :: "json \<Rightarrow> protected option" where
  "protected_of_json j =
     (case (string_field ''enc'' j, string_field ''typ'' j, string_field ''alg'' j,
            object_field ''recipients'' j) of
        (Some e, Some t, Some a, Some (JArray js)) \<Rightarrow>
          (case recipients_of_json js of
             Some rs \<Rightarrow> Some \<lparr>Enc = e, Typ = t, Alg = a, Recipients = rs\<rparr>
           | None \<Rightarrow> None)
      | _ \<Rightarrow> None)"

text \<open>
  Modelled from the spec: the collaborators of \<open>Decrypt\<close>. \<open>publicKeyOf\<close> gives the
  signing public key paired with the caller's private key, \<open>agreementPrivateKey\<close> its
  agreement form; \<open>chacha_Open key nonce sealed additionalData\<close> opens ciphertext and
  tag.
\<close>

record Decrypter =
  json_Unmarshal :: "bytes \<Rightarrow> error + json"
  base64_DecodeString :: "string \<Rightarrow> error + bytes"
  base58_Decode :: "string \<Rightarrow> bytes"
  publicKeyOf :: "bytes \<Rightarrow> bytes"
  agreementPrivateKey :: "bytes \<Rightarrow> error + bytes"
  box_SealOpen :: "bytes \<Rightarrow> bytes \<Rightarrow> error + bytes"
  box_EasyOpen :: "bytes \<Rightarrow> bytes \<Rightarrow> bytes \<Rightarrow> bytes \<Rightarrow> error + bytes"
  chacha_Open :: "bytes \<Rightarrow> bytes \<Rightarrow> bytes \<Rightarrow> bytes \<Rightarrow> error + bytes"

definition orFail :: "decrypt_error \<Rightarrow> error + 'a \<Rightarrow> decrypt_error + 'a" where
  "orFail kind r = (case r of Inl err \<Rightarrow> Inl kind | Inr a \<Rightarrow> Inr a)"

definition orMissing :: "decrypt_error \<Rightarrow> 'a option \<Rightarrow> decrypt_error + 'a" where
  "orMissing kind r = (case r of None \<Rightarrow> Inl kind | Some a \<Rightarrow> Inr a)"

definition thenDo :: "decrypt_error + 'a \<Rightarrow> ('a \<Rightarrow> decrypt_error + 'b) \<Rightarrow> decrypt_error + 'b" where
  "thenDo r f = (case r of Inl kind \<Rightarrow> Inl kind | Inr a \<Rightarrow> f a)"

definition Decrypt ::
  "'w Crypter \<Rightarrow> Decrypter \<Rightarrow> bytes \<Rightarrow> bytes \<Rightarrow> decrypt_error + (bytes \<times> bytes)" where
  "Decrypt c d envelope ownPrivateKey =
     thenDo (orFail SerializationFailure (json_Unmarshal d envelope)) (\<lambda>envelopeJson.
     thenDo (orMissing SerializationFailure (legacyEnvelope_of_json envelopeJson)) (\<lambda>env.
     thenDo (orFail SerializationFailure (base64_DecodeString d (Protected env))) (\<lambda>protectedBytes.
     thenDo (orFail SerializationFailure (json_Unmarshal d protectedBytes)) (\<lambda>protectedJson.
     thenDo (orMissing SerializationFailure (protected_of_json protectedJson)) (\<lambda>p.
     thenDo (orMissing RecipientNotFound
               (find (\<lambda>r. KID (Header r) = base58_Encode c (publicKeyOf d ownPrivateKey))
                  (Recipients p))) (\<lambda>r.
     thenDo (orFail KeyConversionFailure (agreementPrivateKey d ownPrivateKey)) (\<lambda>ownEncPriv.
     thenDo (orFail SerializationFailure (base64_DecodeString d (Sender (Header r)))) (\<lambda>sealedSender.
     thenDo (orFail BoxOperationFailure (box_SealOpen d sealedSender ownEncPriv)) (\<lambda>senderText.
     let senderKey = base58_Decode d senderText in
     thenDo (orFail KeyConversionFailure (cryptoutil_PublicEd25519toCurve25519 c senderKey)) (\<lambda>senderEncPub.
     thenDo (orFail SerializationFailure (base64_DecodeString d (EncryptedKey r))) (\<lambda>wrappedKey.
     thenDo (orFail SerializationFailure (base64_DecodeString d (IV (Header r)))) (\<lambda>wrapNonce.
     thenDo (orFail AuthenticationFailure
               (box_EasyOpen d wrappedKey wrapNonce senderEncPub ownEncPriv)) (\<lambda>cek.
     thenDo (orFail SerializationFailure (base64_DecodeString d (EnvIV env))) (\<lambda>nonce.
     thenDo (orFail SerializationFailure (base64_DecodeString d (CipherText env))) (\<lambda>cipherText.
     thenDo (orFail SerializationFailure (base64_DecodeString d (Tag env))) (\<lambda>tag.
     thenDo (orFail AuthenticationFailure
               (chacha_Open d cek nonce (cipherText @ tag) (Protected env))) (\<lambda>payload.
     Inr (payload, senderKey))))))))))))))))))"

subsection \<open>A small instance, for running the model\<close>

text \<open>
  A Crypter over a counter: the randomness source delivers \<open>x\<close> bytes on even counts
  and \<open>y\<close> bytes on odd counts, the box and the cipher mark what they are given, and
  the serializer prints compact JSON without escapes.
\<close>

fun commas :: "string list \<Rightarrow> string" where
  "commas [] = []"
| "commas [s] = s"
| "commas (s # t # ss) = s @ '','' @ commas (t # ss)"

fun render :: "json \<Rightarrow> string" where
  "render (JString s) = [CHR 0x22] @ s @ [CHR 0x22]"
| "render (JArray xs) = ''['' @ commas (map render xs) @ '']''"
| "render (JObject kvs) =
     ''{'' @ commas (map (\<lambda>kv. [CHR 0x22] @ fst kv @ [CHR 0x22] @ '':'' @ render (snd kv)) kvs) @ ''}''"

definition toy_box :: "nat box" where
  "toy_box =
     \<lparr>Easy = (\<lambda>payload nonce theirPub myKey w. (Inr (''easy('' @ payload @ '')''), w)),
      Seal = (\<lambda>payload theirPub w. (Inr (''seal('' @ payload @ '')''), Suc w))\<rparr>"

definition toy_aead :: "bytes \<Rightarrow> aead" where
  "toy_aead key nonce plaintext additionalData =
     map (\<lambda>b. if b = CHR ''a'' then CHR ''b'' else CHR ''a'') plaintext @
     take 16 (key @ replicate 16 (CHR ''t''))"

definition toy :: "nat Crypter" where
  "toy =
     \<lparr>randSource_Read = (\<lambda>n w. (Inr (replicate n (if even w then CHR ''x'' else CHR ''y'')), Suc w)),
      kms_ConvertToEncryptionKey = (\<lambda>key w. (Inr (''enc-'' @ key), w)),
      kms_NewCryptoBox = (\<lambda>w. (Inr toy_box, w)),
      cryptoutil_PublicEd25519toCurve25519 = (\<lambda>key. Inr (''curve-'' @ key)),
      base58_Encode = (\<lambda>b. ''z'' @ b),
      base64_EncodeToString = (\<lambda>b. b @ ''=''),
      json_Marshal = (\<lambda>j. Inr (render j)),
      chacha_New = (\<lambda>key. Inr (toy_aead key))\<rparr>"

definition toy_recipient :: recipient where
  "toy_recipient =
     \<lparr>EncryptedKey = ''easy(yyyyyyyyyyyyyyyyyyyyyyyyyyyyyyyy)='',
      Header = \<lparr>KID = ''zR'', Sender = ''seal(zS)='', IV = ''xxxxxxxxxxxxxxxxxxxxxxxx=''\<rparr>\<rparr>"

definition toy_envelope :: bytes where
  "toy_envelope =
     render (legacyEnvelope_json
       \<lparr>Protected = render (protected_json
            \<lparr>Enc = ''chacha20poly1305_ietf'', Typ = ''JWM/1.0'', Alg = ''Authcrypt'',
             Recipients = [toy_recipient]\<rparr>) @ ''='',
        EnvIV = ''xxxxxxxxxxxx='', CipherText = ''aa='', Tag = ''yyyyyyyyyyyyyyyy=''\<rparr>)"

text \<open>
  Two instances that fail: one whose randomness source returns an error, one whose key
  service returns the same error from \<open>ConvertToEncryptionKey\<close>.
\<close>

definition toy_rand_fails :: "nat Crypter" where
  "toy_rand_fails = toy\<lparr>randSource_Read := (\<lambda>n w. (Inl (GoError ''EOF''), w))\<rparr>"

definition toy_convert_fails :: "nat Crypter" where
  "toy_convert_fails = toy\<lparr>kms_ConvertToEncryptionKey := (\<lambda>key w. (Inl (GoError ''EOF''), w))\<rparr>"

text \<open>What the instance returns for an empty payload, started at count 0 and at count 1.\<close>

definition toy_envelope_empty_0 :: bytes where
  "toy_envelope_empty_0 =
     render (legacyEnvelope_json
       \<lparr>Protected = render (protected_json
            \<lparr>Enc = ''chacha20poly1305_ietf'', Typ = ''JWM/1.0'', Alg = ''Authcrypt'',
             Recipients = [\<lparr>EncryptedKey = ''easy(yyyyyyyyyyyyyyyyyyyyyyyyyyyyyyyy)='',
                Header = \<lparr>KID = ''zR'', Sender = ''seal(zS)='',
                          IV = ''xxxxxxxxxxxxxxxxxxxxxxxx=''\<rparr>\<rparr>]\<rparr>) @ ''='',
        EnvIV = ''xxxxxxxxxxxx='', CipherText = ''='', Tag = ''yyyyyyyyyyyyyyyy=''\<rparr>)"

definition toy_envelope_empty_1 :: bytes where
  "toy_envelope_empty_1 =
     render (legacyEnvelope_json
       \<lparr>Protected = render (protected_json
            \<lparr>Enc = ''chacha20poly1305_ietf'', Typ = ''JWM/1.0'', Alg = ''Authcrypt'',
             Recipients = [\<lparr>EncryptedKey = ''easy(xxxxxxxxxxxxxxxxxxxxxxxxxxxxxxxx)='',
                Header = \<lparr>KID = ''zR'', Sender = ''seal(zS)='',
                          IV = ''yyyyyyyyyyyyyyyyyyyyyyyy=''\<rparr>\<rparr>]\<rparr>) @ ''='',
        EnvIV = ''yyyyyyyyyyyy='', CipherText = ''='', Tag = ''xxxxxxxxxxxxxxxx=''\<rparr>)"

subsection \<open>A second instance, with a serializer that can be read back\<close>

text \<open>
  The second instance differs from the first in two collaborators. Its serializer
  writes a JSON value in postfix form, which \<open>unpostfix\<close> reads back with a stack. Its
  cipher adds, bit by bit, a key stream made of the nonce and the key to the
  plaintext, and appends a tag of 16 bytes made of the nonce and the head of the key.
\<close>

datatype item = Str string | Val json | Vals "json list" | Fields "(string \<times> json) list"

definition postfix_string :: "string \<Rightarrow> string" where
  "postfix_string s = ''e'' @ concat (map (\<lambda>x. [CHR ''c'', x]) s)"

fun postfix :: "json \<Rightarrow> string" where
  "postfix (JString s) = postfix_string s @ ''S''"
| "postfix (JArray xs) = ''['' @ concat (map (\<lambda>x. postfix x @ '','') xs) @ '']''"
| "postfix (JObject kvs) =
     ''{'' @ concat (map (\<lambda>kv. postfix_string (fst kv) @ postfix (snd kv) @ '':'') kvs) @ ''}''"

fun unpostfix :: "string \<Rightarrow> item list \<Rightarrow> item list option" where
  "unpostfix [] st = Some st"
| "unpostfix (x # rest) st =
     (if x = CHR ''e'' then unpostfix rest (Str [] # st)
      else if x = CHR ''c'' then
        (case rest of
           [] \<Rightarrow> None
         | y # rest' \<Rightarrow>
             (case st of Str t # st' \<Rightarrow> unpostfix rest' (Str (t @ [y]) # st') | _ \<Rightarrow> None))
      else if x = CHR ''S'' then
        (case st of Str t # st' \<Rightarrow> unpostfix rest (Val (JString t) # st') | _ \<Rightarrow> None)
      else if x = CHR ''['' then unpostfix rest (Vals [] # st)
      else if x = CHR '','' then
        (case st of Val v # Vals vs # st' \<Rightarrow> unpostfix rest (Vals (vs @ [v]) # st') | _ \<Rightarrow> None)
      else if x = CHR '']'' then
        (case st of Vals vs # st' \<Rightarrow> unpostfix rest (Val (JArray vs) # st') | _ \<Rightarrow> None)
      else if x = CHR ''{'' then unpostfix rest (Fields [] # st)
      else if x = CHR '':'' then
        (case st of
           Val v # Str k # Fields fs # st' \<Rightarrow> unpostfix rest (Fields (fs @ [(k, v)]) # st')
         | _ \<Rightarrow> None)
      else if x = CHR ''}'' then
        (case st of Fields fs # st' \<Rightarrow> unpostfix rest (Val (JObject fs) # st') | _ \<Rightarrow> None)
      else None)"

definition toy_unmarshal :: "bytes \<Rightarrow> error + json" where
  "toy_unmarshal bs =
     (case unpostfix bs [] of
        Some [Val j] \<Rightarrow> Inr j
      | _ \<Rightarrow> Inl (GoError ''invalid character''))"

fun mix :: "char \<Rightarrow> char \<Rightarrow> char" where
  "mix (Char a0 a1 a2 a3 a4 a5 a6 a7) (Char b0 b1 b2 b3 b4 b5 b6 b7) =
     Char (a0 \<noteq> b0) (a1 \<noteq> b1) (a2 \<noteq> b2) (a3 \<noteq> b3) (a4 \<noteq> b4) (a5 \<noteq> b5) (a6 \<noteq> b6) (a7 \<noteq> b7)"

fun xor_bytes :: "bytes \<Rightarrow> bytes \<Rightarrow> bytes" where
  "xor_bytes (b # bs) (k # ks) = mix b k # xor_bytes bs ks"
| "xor_bytes [] ks = []"
| "xor_bytes bs [] = []"

definition pad_to :: "nat \<Rightarrow> bytes \<Rightarrow> bytes" where
  "pad_to n bs = take n bs @ replicate (n - length bs) (CHR ''t'')"

definition toy_keystream :: "bytes \<Rightarrow> bytes \<Rightarrow> nat \<Rightarrow> bytes" where
  "toy_keystream key nonce n = pad_to n (pad_to 12 nonce @ key)"

definition toy_tag :: "bytes \<Rightarrow> bytes \<Rightarrow> bytes" where
  "toy_tag key nonce = pad_to 12 nonce @ pad_to 4 key"

definition toy_aead2 :: "bytes \<Rightarrow> aead" where
  "toy_aead2 key nonce plaintext additionalData =
     xor_bytes plaintext (toy_keystream key nonce (length plaintext)) @ toy_tag key nonce"

definition toy2 :: "nat Crypter" where
  "toy2 = toy\<lparr>json_Marshal := (\<lambda>j. Inr (postfix j)), chacha_New := (\<lambda>key. Inr (toy_aead2 key))\<rparr>"

definition toy2_recipient :: "bytes \<Rightarrow> bytes \<Rightarrow> recipient" where
  "toy2_recipient cek wrapNonce =
     \<lparr>EncryptedKey = ''easy('' @ cek @ '')='',
      Header = \<lparr>KID = ''zR'', Sender = ''seal(zS)='', IV = wrapNonce @ ''=''\<rparr>\<rparr>"

definition toy2_envelope :: "bytes \<Rightarrow> bytes \<Rightarrow> bytes \<Rightarrow> bytes \<Rightarrow> bytes" where
  "toy2_envelope payload nonce cek wrapNonce =
     postfix (legacyEnvelope_json
       \<lparr>Protected = postfix (protected_json
            \<lparr>Enc = ''chacha20poly1305_ietf'', Typ = ''JWM/1.0'', Alg = ''Authcrypt'',
             Recipients = [toy2_recipient cek wrapNonce]\<rparr>) @ ''='',
        EnvIV = nonce @ ''='',
        CipherText = xor_bytes payload (nonce @ cek) @ ''='',
        Tag = nonce @ take 4 cek @ ''=''\<rparr>)"

text \<open>
  The second instance with a randomness source that delivers, at count 7, an \<open>x\<close>
  followed by \<open>y\<close> bytes.
\<close>

definition toy3 :: "nat Crypter" where
  "toy3 = toy2\<lparr>randSource_Read :=
     (\<lambda>n w. (Inr (if w = 7 then CHR ''x'' # replicate (n - 1) (CHR ''y'')
                   else replicate n (if even w then CHR ''x'' else CHR ''y'')), Suc w))\<rparr>"

text \<open>The collaborators of \<open>Decrypt\<close> that undo the second instance.\<close>

definition toy_decrypter :: Decrypter where
  "toy_decrypter =
     \<lparr>json_Unmarshal = toy_unmarshal,
      base64_DecodeString =
        (\<lambda>s. if s \<noteq> [] \<and> last s = CHR ''='' then Inr (butlast s)
             else Inl (GoError ''illegal base64 data'')),
      base58_Decode = tl,
      publicKeyOf = drop 5,
      agreementPrivateKey = (\<lambda>key. Inr (''curve-'' @ key)),
      box_SealOpen = (\<lambda>sealed ownPriv. Inr (butlast (drop 5 sealed))),
      box_EasyOpen = (\<lambda>boxed nonce peerPub ownPriv. Inr (butlast (drop 5 boxed))),
      chacha_Open =
        (\<lambda>key nonce sealed additionalData.
           if 16 \<le> length sealed \<and> drop (length sealed - 16) sealed = toy_tag key nonce
           then Inr (xor_bytes (take (length sealed - 16) sealed)
                      (toy_keystream key nonce (length sealed - 16)))
           else Inl (GoError ''message authentication failed''))\<rparr>"

definition toy2_envelope_two :: bytes where
  "toy2_envelope_two =
     postfix (legacyEnvelope_json
       \<lparr>Protected = postfix (protected_json
            \<lparr>Enc = ''chacha20poly1305_ietf'', Typ = ''JWM/1.0'', Alg = ''Authcrypt'',
             Recipients =
               [\<lparr>EncryptedKey = ''easy(yyyyyyyyyyyyyyyyyyyyyyyyyyyyyyyy)='',
                 Header = \<lparr>KID = ''zQ'', Sender = ''seal(zS)='',
                           IV = ''xxxxxxxxxxxxxxxxxxxxxxxx=''\<rparr>\<rparr>,
                \<lparr>EncryptedKey = ''easy(yyyyyyyyyyyyyyyyyyyyyyyyyyyyyyyy)='',
                 Header = \<lparr>KID = ''zR'', Sender = ''seal(zS)='',
                           IV = ''xxxxxxxxxxxxxxxxxxxxxxxx=''\<rparr>\<rparr>]\<rparr>) @ ''='',
        EnvIV = ''xxxxxxxxxxxx='',
        CipherText = xor_bytes ''hello'' ''xxxxx'' @ ''='',
        Tag = ''xxxxxxxxxxxxyyyy=''\<rparr>)"

section \<open>Running the functions: what a success and a failure consist of\<close>

lemma andThen_Inr:
  "andThen m f w = (Inr b, w'') \<longleftrightarrow> (\<exists>a w'. m w = (Inr a, w') \<and> f a w' = (Inr b, w''))"
  by (auto simp: andThen_def split: prod.splits sum.splits)

lemma andThen_Inl:
  "andThen m f w = (Inl e, w'') \<longleftrightarrow>
     m w = (Inl e, w'') \<or> (\<exists>a w'. m w = (Inr a, w') \<and> f a w' = (Inl e, w''))"
  by (auto simp: andThen_def split: prod.splits sum.splits)

lemma pure_call_eq: "pure_call r w = (x, w') \<longleftrightarrow> r = x \<and> w' = w"
  by (auto simp: pure_call_def)

lemma return_ok_eq: "return_ok a w = (x, w') \<longleftrightarrow> x = Inr a \<and> w' = w"
  by (auto simp: return_ok_def)

lemma return_err_eq: "return_err e w = (x, w') \<longleftrightarrow> x = Inl e \<and> w' = w"
  by (auto simp: return_err_def)

lemma Read_Inr:
  "Read c n w = (Inr buf, w') \<longleftrightarrow>
     (\<exists>got. randSource_Read c n w = (Inr got, w') \<and>
            buf = take n got @ replicate (n - length got) (CHR 0x00))"
  by (auto simp: Read_def andThen_Inr return_ok_eq)

lemma Read_Inl:
  "Read c n w = (Inl e, w') \<longleftrightarrow> randSource_Read c n w = (Inl e, w')"
  by (auto simp: Read_def andThen_Inl return_ok_eq)

lemma Read_length: "Read c n w = (Inr buf, w') \<Longrightarrow> length buf = n"
  by (auto simp: Read_Inr)

lemma buildRecipient_Inr:
  "buildRecipient c cek senderKey recKey w = (Inr r, w') \<longleftrightarrow>
     (\<exists>nonce w1 senderEncKey w2 recEncKey bx w3 encCEK w4 encSender.
        Read c 24 w = (Inr nonce, w1) \<and>
        kms_ConvertToEncryptionKey c senderKey w1 = (Inr senderEncKey, w2) \<and>
        cryptoutil_PublicEd25519toCurve25519 c recKey = Inr recEncKey \<and>
        kms_NewCryptoBox c w2 = (Inr bx, w3) \<and>
        Easy bx cek nonce recEncKey senderEncKey w3 = (Inr encCEK, w4) \<and>
        Seal bx (base58_Encode c senderKey) recEncKey w4 = (Inr encSender, w') \<and>
        r = \<lparr>EncryptedKey = base64_EncodeToString c encCEK,
             Header = \<lparr>KID = base58_Encode c recKey,
                       Sender = base64_EncodeToString c encSender,
                       IV = base64_EncodeToString c nonce\<rparr>\<rparr>)"
  unfolding buildRecipient_def andThen_Inr pure_call_eq return_ok_eq
  by fastforce


lemma buildRecipients_loop_Inr:
  "buildRecipients_loop c cek senderKey (enumerate k ks) acc w = (Inr rs, w') \<Longrightarrow>
   k + length ks \<le> length acc \<Longrightarrow>
     length rs = length acc \<and>
     (\<forall>j<length acc. j < k \<or> k + length ks \<le> j \<longrightarrow> rs ! j = acc ! j) \<and>
     (\<forall>i<length ks. \<exists>wi wi'.
         buildRecipient c cek senderKey (ks ! i) wi = (Inr (rs ! (k + i)), wi'))"
proof (induction ks arbitrary: k acc w)
  case Nil
  then show ?case by (simp add: return_ok_eq)
next
  case (Cons key ks)
  from Cons.prems(1) obtain r w1 where
    r: "buildRecipient c cek senderKey key w = (Inr r, w1)" and
    rest: "buildRecipients_loop c cek senderKey (enumerate (Suc k) ks) (acc[k := r]) w1 = (Inr rs, w')"
    by (auto simp: andThen_Inr)
  from Cons.prems(2) have bound: "Suc k + length ks \<le> length (acc[k := r])" by simp
  note ih = Cons.IH [OF rest bound]
  from ih have len: "length rs = length acc" by simp
  from ih have "\<forall>j<length (acc[k := r]). j < Suc k \<or> Suc k + length ks \<le> j \<longrightarrow>
      rs ! j = (acc[k := r]) ! j" by (rule conjunct1 [OF conjunct2])
  then have keep: "\<And>j. j < length acc \<Longrightarrow> j < Suc k \<or> Suc k + length ks \<le> j \<Longrightarrow>
      rs ! j = (acc[k := r]) ! j" unfolding length_list_update by blast
  from ih have built: "\<And>i. i < length ks \<Longrightarrow> \<exists>wi wi'.
      buildRecipient c cek senderKey (ks ! i) wi = (Inr (rs ! (Suc k + i)), wi')" by blast
  have k_in: "k < length acc" using Cons.prems(2) by simp
  have at_k: "rs ! k = r" using keep [of k] k_in by simp
  have outside: "\<forall>j<length acc. j < k \<or> k + length (key # ks) \<le> j \<longrightarrow> rs ! j = acc ! j"
  proof (intro allI impI)
    fix j assume j: "j < length acc" and out: "j < k \<or> k + length (key # ks) \<le> j"
    then have "j \<noteq> k" by auto
    moreover have "rs ! j = (acc[k := r]) ! j" using keep [of j] j out by auto
    ultimately show "rs ! j = acc ! j" by simp
  qed
  have inside: "\<forall>i<length (key # ks). \<exists>wi wi'.
      buildRecipient c cek senderKey ((key # ks) ! i) wi = (Inr (rs ! (k + i)), wi')"
  proof (intro allI impI)
    fix i assume i: "i < length (key # ks)"
    show "\<exists>wi wi'. buildRecipient c cek senderKey ((key # ks) ! i) wi = (Inr (rs ! (k + i)), wi')"
    proof (cases i)
      case 0
      with r at_k show ?thesis by auto
    next
      case (Suc i')
      with i have "i' < length ks" by simp
      from built [OF this] Suc show ?thesis by simp
    qed
  qed
  from len outside inside show ?case by blast
qed

lemma buildRecipients_Inr:
  assumes "buildRecipients c cek senderKey recPubKeys w = (Inr rs, w')"
  shows "length rs = length recPubKeys"
    and "\<And>i. i < length recPubKeys \<Longrightarrow> \<exists>wi wi'.
           buildRecipient c cek senderKey (recPubKeys ! i) wi = (Inr (rs ! i), wi')"
  using buildRecipients_loop_Inr [of c cek senderKey 0 recPubKeys
          "replicate (length recPubKeys) zero_recipient" w rs w'] assms
  by (simp_all add: buildRecipients_def)

lemma buildEnvelope_Inr:
  "buildEnvelope c nonce payload cek p w = (Inr out, w') \<longleftrightarrow>
     (\<exists>protectedBytes chachaCipher.
        json_Marshal c (protected_json p) = Inr protectedBytes \<and>
        chacha_New c cek = Inr chachaCipher \<and>
        poly1305_TagSize \<le> length (chachaCipher nonce payload (base64_EncodeToString c protectedBytes)) \<and>
        json_Marshal c (legacyEnvelope_json
          \<lparr>Protected = base64_EncodeToString c protectedBytes,
           EnvIV = base64_EncodeToString c nonce,
           CipherText = base64_EncodeToString c
             (take (length (chachaCipher nonce payload (base64_EncodeToString c protectedBytes)) - poly1305_TagSize)
                (chachaCipher nonce payload (base64_EncodeToString c protectedBytes))),
           Tag = base64_EncodeToString c
             (drop (length (chachaCipher nonce payload (base64_EncodeToString c protectedBytes)) - poly1305_TagSize)
                (chachaCipher nonce payload (base64_EncodeToString c protectedBytes)))\<rparr>) = Inr out \<and>
        w' = w)"
  (is "_ = ?rhs")
proof
  assume "buildEnvelope c nonce payload cek p w = (Inr out, w')"
  then show "?rhs"
    unfolding buildEnvelope_def Let_def andThen_Inr pure_call_eq
    by (auto simp: return_err_eq pure_call_eq split: if_splits)
next
  assume "?rhs"
  then show "buildEnvelope c nonce payload cek p w = (Inr out, w')"
    by (auto simp: buildEnvelope_def Let_def andThen_def pure_call_def)
qed

lemma Encrypt_Inr:
  "Encrypt c payload sender recipientPubKeys w = (Inr out, w') \<longleftrightarrow>
     recipientPubKeys \<noteq> [] \<and>
     (\<exists>nonce w1 cek w2 recipients.
        Read c chacha_NonceSize w = (Inr nonce, w1) \<and>
        Read c chacha_KeySize w1 = (Inr cek, w2) \<and>
        buildRecipients c cek sender recipientPubKeys w2 = (Inr recipients, w') \<and>
        buildEnvelope c nonce payload cek
          \<lparr>Enc = ''chacha20poly1305_ietf'', Typ = ''JWM/1.0'', Alg = ''Authcrypt'',
           Recipients = recipients\<rparr> w' = (Inr out, w'))"
  unfolding Encrypt_def Let_def
  by (auto simp: andThen_Inr return_err_eq buildEnvelope_Inr)

lemma Encrypt_success:
  assumes "Encrypt c payload sender recipientPubKeys w = (Inr out, w')"
  obtains nonce w1 cek w2 recipients protectedBytes chachaCipher where
    "recipientPubKeys \<noteq> []"
    "Read c chacha_NonceSize w = (Inr nonce, w1)"
    "Read c chacha_KeySize w1 = (Inr cek, w2)"
    "buildRecipients c cek sender recipientPubKeys w2 = (Inr recipients, w')"
    "json_Marshal c (protected_json
        \<lparr>Enc = ''chacha20poly1305_ietf'', Typ = ''JWM/1.0'', Alg = ''Authcrypt'',
         Recipients = recipients\<rparr>) = Inr protectedBytes"
    "chacha_New c cek = Inr chachaCipher"
    "poly1305_TagSize \<le> length (chachaCipher nonce payload (base64_EncodeToString c protectedBytes))"
    "json_Marshal c (legacyEnvelope_json
        \<lparr>Protected = base64_EncodeToString c protectedBytes,
         EnvIV = base64_EncodeToString c nonce,
         CipherText = base64_EncodeToString c
           (take (length (chachaCipher nonce payload (base64_EncodeToString c protectedBytes)) - poly1305_TagSize)
              (chachaCipher nonce payload (base64_EncodeToString c protectedBytes))),
         Tag = base64_EncodeToString c
           (drop (length (chachaCipher nonce payload (base64_EncodeToString c protectedBytes)) - poly1305_TagSize)
              (chachaCipher nonce payload (base64_EncodeToString c protectedBytes)))\<rparr>) = Inr out"
proof -
  from assms obtain nonce w1 cek w2 recipients where
    a: "recipientPubKeys \<noteq> []"
       "Read c chacha_NonceSize w = (Inr nonce, w1)"
       "Read c chacha_KeySize w1 = (Inr cek, w2)"
       "buildRecipients c cek sender recipientPubKeys w2 = (Inr recipients, w')"
    and env: "buildEnvelope c nonce payload cek
          \<lparr>Enc = ''chacha20poly1305_ietf'', Typ = ''JWM/1.0'', Alg = ''Authcrypt'',
           Recipients = recipients\<rparr> w' = (Inr out, w')"
    unfolding Encrypt_Inr by blast
  from env [unfolded buildEnvelope_Inr] obtain protectedBytes chachaCipher where
    b: "json_Marshal c (protected_json
        \<lparr>Enc = ''chacha20poly1305_ietf'', Typ = ''JWM/1.0'', Alg = ''Authcrypt'',
         Recipients = recipients\<rparr>) = Inr protectedBytes"
    "chacha_New c cek = Inr chachaCipher"
    "poly1305_TagSize \<le> length (chachaCipher nonce payload (base64_EncodeToString c protectedBytes))"
    "json_Marshal c (legacyEnvelope_json
        \<lparr>Protected = base64_EncodeToString c protectedBytes,
         EnvIV = base64_EncodeToString c nonce,
         CipherText = base64_EncodeToString c
           (take (length (chachaCipher nonce payload (base64_EncodeToString c protectedBytes)) - poly1305_TagSize)
              (chachaCipher nonce payload (base64_EncodeToString c protectedBytes))),
         Tag = base64_EncodeToString c
           (drop (length (chachaCipher nonce payload (base64_EncodeToString c protectedBytes)) - poly1305_TagSize)
              (chachaCipher nonce payload (base64_EncodeToString c protectedBytes)))\<rparr>) = Inr out"
    by blast
  from a b that show thesis by blast
qed

lemmas toy_defs = Encrypt_def toy_def andThen_def return_ok_def return_err_def pure_call_def Read_def
    buildRecipients_def buildRecipient_def buildEnvelope_def toy_box_def toy_aead_def
    chacha_NonceSize_def chacha_KeySize_def poly1305_TagSize_def zero_recipient_def
    protected_json_def recipient_json_def recipientHeader_json_def legacyEnvelope_json_def Let_def
    toy_envelope_def toy_recipient_def

lemma toy_run: "Encrypt toy ''hi'' ''S'' [''R''] 0 = (Inr toy_envelope, 4)"
  by (simp add: toy_defs eval_nat_numeral)

lemma buildRecipient_KID:
  "buildRecipient c cek senderKey recKey w = (Inr r, w') \<Longrightarrow> KID (Header r) = base58_Encode c recKey"
  by (auto simp: buildRecipient_Inr)

lemma buildRecipients_KIDs:
  assumes "buildRecipients c cek senderKey recPubKeys w = (Inr rs, w')"
  shows "map (\<lambda>r. KID (Header r)) rs = map (base58_Encode c) recPubKeys"
proof (rule nth_equalityI)
  show "length (map (\<lambda>r. KID (Header r)) rs) = length (map (base58_Encode c) recPubKeys)"
    using buildRecipients_Inr(1) [OF assms] by simp
next
  fix i assume "i < length (map (\<lambda>r. KID (Header r)) rs)"
  then have i: "i < length recPubKeys" using buildRecipients_Inr(1) [OF assms] by simp
  from buildRecipients_Inr(2) [OF assms i] obtain wi wi' where
    "buildRecipient c cek senderKey (recPubKeys ! i) wi = (Inr (rs ! i), wi')" by blast
  from buildRecipient_KID [OF this] i buildRecipients_Inr(1) [OF assms]
  show "map (\<lambda>r. KID (Header r)) rs ! i = map (base58_Encode c) recPubKeys ! i" by simp
qed

lemma buildRecipients_loop_first_failure:
  "buildRecipients_loop c cek senderKey (enumerate k built) acc w = (Inr rs, wi) \<Longrightarrow>
   buildRecipient c cek senderKey recKey wi = (Inl e, w') \<Longrightarrow>
   buildRecipients_loop c cek senderKey (enumerate k (built @ recKey # rest)) acc' w = (Inl e, w')"
proof (induction built arbitrary: k acc acc' w)
  case Nil
  then show ?case by (simp add: return_ok_eq andThen_def)
next
  case (Cons key built)
  from Cons.prems(1) obtain r w1 where
    r: "buildRecipient c cek senderKey key w = (Inr r, w1)" and
    tl: "buildRecipients_loop c cek senderKey (enumerate (Suc k) built) (acc[k := r]) w1 = (Inr rs, wi)"
    by (auto simp: andThen_Inr)
  from Cons.IH [OF tl Cons.prems(2)]
  have "buildRecipients_loop c cek senderKey (enumerate (Suc k) (built @ recKey # rest)) (acc'[k := r]) w1
        = (Inl e, w')" .
  with r show ?case by (simp add: andThen_def)
qed

lemma buildRecipients_first_failure:
  "buildRecipients c cek senderKey built w = (Inr rs, wi) \<Longrightarrow>
   buildRecipient c cek senderKey recKey wi = (Inl e, w') \<Longrightarrow>
   buildRecipients c cek senderKey (built @ recKey # rest) w = (Inl e, w')"
  unfolding buildRecipients_def by (rule buildRecipients_loop_first_failure)

lemma replicate_numeral_unfold: "replicate (numeral k) x = x # replicate (pred_numeral k) x"
  by (simp add: numeral_eq_Suc)

lemma Encrypt_success_env:
  assumes "Encrypt c payload sender recipientPubKeys w = (Inr out, w')"
  obtains nonce w1 cek w2 recipients protectedBytes chachaCipher symPld env where
    "Read c chacha_NonceSize w = (Inr nonce, w1)"
    "Read c chacha_KeySize w1 = (Inr cek, w2)"
    "buildRecipients c cek sender recipientPubKeys w2 = (Inr recipients, w')"
    "json_Marshal c (protected_json
        \<lparr>Enc = ''chacha20poly1305_ietf'', Typ = ''JWM/1.0'', Alg = ''Authcrypt'',
         Recipients = recipients\<rparr>) = Inr protectedBytes"
    "chacha_New c cek = Inr chachaCipher"
    "symPld = chachaCipher nonce payload (base64_EncodeToString c protectedBytes)"
    "poly1305_TagSize \<le> length symPld"
    "env = \<lparr>Protected = base64_EncodeToString c protectedBytes,
            EnvIV = base64_EncodeToString c nonce,
            CipherText = base64_EncodeToString c (take (length symPld - poly1305_TagSize) symPld),
            Tag = base64_EncodeToString c (drop (length symPld - poly1305_TagSize) symPld)\<rparr>"
    "json_Marshal c (legacyEnvelope_json env) = Inr out"
proof -
  from assms obtain nonce w1 cek w2 recipients protectedBytes chachaCipher where
    f: "recipientPubKeys \<noteq> []"
    "Read c chacha_NonceSize w = (Inr nonce, w1)"
    "Read c chacha_KeySize w1 = (Inr cek, w2)"
    "buildRecipients c cek sender recipientPubKeys w2 = (Inr recipients, w')"
    "json_Marshal c (protected_json
        \<lparr>Enc = ''chacha20poly1305_ietf'', Typ = ''JWM/1.0'', Alg = ''Authcrypt'',
         Recipients = recipients\<rparr>) = Inr protectedBytes"
    "chacha_New c cek = Inr chachaCipher"
    "poly1305_TagSize \<le> length (chachaCipher nonce payload (base64_EncodeToString c protectedBytes))"
    "json_Marshal c (legacyEnvelope_json
        \<lparr>Protected = base64_EncodeToString c protectedBytes,
         EnvIV = base64_EncodeToString c nonce,
         CipherText = base64_EncodeToString c
           (take (length (chachaCipher nonce payload (base64_EncodeToString c protectedBytes)) - poly1305_TagSize)
              (chachaCipher nonce payload (base64_EncodeToString c protectedBytes))),
         Tag = base64_EncodeToString c
           (drop (length (chachaCipher nonce payload (base64_EncodeToString c protectedBytes)) - poly1305_TagSize)
              (chachaCipher nonce payload (base64_EncodeToString c protectedBytes)))\<rparr>) = Inr out"
    by (rule Encrypt_success)
  show thesis
    by (rule that [OF f(2) f(3) f(4) f(5) f(6) refl f(7) refl f(8)])
qed

lemma unpostfix_chars:
  "unpostfix (concat (map (\<lambda>x. [CHR ''c'', x]) s) @ rest) (Str t # st) =
   unpostfix rest (Str (t @ s) # st)"
  by (induction s arbitrary: t) simp_all

lemma unpostfix_string:
  "unpostfix (postfix_string s @ rest) st = unpostfix rest (Str s # st)"
  using unpostfix_chars [of s rest "[]" st] by (simp add: postfix_string_def)

lemma unpostfix_postfix:
  "unpostfix (postfix j @ rest) st = unpostfix rest (Val j # st)"
proof (induction j arbitrary: rest st)
  case (JString s)
  show ?case by (simp add: unpostfix_string)
next
  case (JArray xs)
  have items: "unpostfix (concat (map (\<lambda>x. postfix x @ '','') ys) @ rest') (Vals vs # st') =
      unpostfix rest' (Vals (vs @ ys) # st')" if "set ys \<subseteq> set xs" for ys vs rest' st'
    using that
  proof (induction ys arbitrary: vs)
    case Nil
    show ?case by simp
  next
    case (Cons y ys)
    then have y: "y \<in> set xs" and ys: "set ys \<subseteq> set xs" by auto
    show ?case
      using JArray [OF y] Cons.IH [OF ys] by simp
  qed
  show ?case using items [where ys = xs and vs = "[]" and rest' = "'']'' @ rest" and st' = st] by simp
next
  case (JObject kvs)
  have fields: "unpostfix (concat (map (\<lambda>kv. postfix_string (fst kv) @ postfix (snd kv) @ '':'') ys) @ rest')
        (Fields fs # st') = unpostfix rest' (Fields (fs @ ys) # st')"
    if "set ys \<subseteq> set kvs" for ys fs rest' st'
    using that
  proof (induction ys arbitrary: fs)
    case Nil
    show ?case by simp
  next
    case (Cons y ys)
    then have y: "y \<in> set kvs" and ys: "set ys \<subseteq> set kvs" by auto
    obtain k v where kv: "y = (k, v)" by (cases y)
    have v: "v \<in> Basic_BNFs.snds y" by (simp add: kv)
    show ?case
      using JObject [OF y v] Cons.IH [OF ys] by (simp add: kv unpostfix_string)
  qed
  show ?case using fields [where ys = kvs and fs = "[]" and rest' = "''}'' @ rest" and st' = st] by simp
qed

lemma toy_unmarshal_postfix: "toy_unmarshal (postfix j) = Inr j"
  using unpostfix_postfix [of j "[]" "[]"] by (simp add: toy_unmarshal_def)

lemmas toy2_defs = toy2_def toy_aead2_def toy2_recipient_def toy2_envelope_def toy_keystream_def
  toy_tag_def pad_to_def

lemma toy2_runs:
  "Encrypt toy2 ''hello, world'' ''S'' [''R''] 0 =
     (Inr (toy2_envelope ''hello, world''
        (replicate 12 (CHR ''x'')) (replicate 32 (CHR ''y'')) (replicate 24 (CHR ''x''))), 4)"
  "Encrypt toy2 ''hello, world'' ''S'' [''R''] 1 =
     (Inr (toy2_envelope ''hello, world''
        (replicate 12 (CHR ''y'')) (replicate 32 (CHR ''x'')) (replicate 24 (CHR ''y''))), 5)"
  by (simp_all add: toy_defs toy2_defs replicate_numeral_unfold)

lemma toy2_base64_inj: "inj (base64_EncodeToString toy2)"
  by (simp add: toy2_def toy_def inj_def)

lemma neq_same_left: "((a::bool) = (\<not> b)) = (a = (\<not> c)) \<longleftrightarrow> b = c"
  by auto

lemma neq_twice: "(((a::bool) = (\<not> b)) = (\<not> b)) = a"
  by auto

lemma mix_same_left: "mix b k1 = mix b k2 \<Longrightarrow> k1 = k2"
  by (cases b; cases k1; cases k2) (simp add: neq_same_left)

lemma mix_twice: "mix (mix b k) k = b"
  by (cases b; cases k) (simp add: neq_twice)

lemma length_xor_bytes: "length (xor_bytes bs ks) = min (length bs) (length ks)"
  by (induction bs ks rule: xor_bytes.induct) simp_all

lemma xor_bytes_same_left:
  "length ks1 = length bs \<Longrightarrow> length ks2 = length bs \<Longrightarrow>
   xor_bytes bs ks1 = xor_bytes bs ks2 \<Longrightarrow> ks1 = ks2"
proof (induction bs arbitrary: ks1 ks2)
  case Nil
  then show ?case by simp
next
  case (Cons b bs)
  from Cons.prems(1) obtain k1 ks1' where ks1: "ks1 = k1 # ks1'" and l1: "length ks1' = length bs"
    by (cases ks1) simp_all
  from Cons.prems(2) obtain k2 ks2' where ks2: "ks2 = k2 # ks2'" and l2: "length ks2' = length bs"
    by (cases ks2) simp_all
  from Cons.prems(3) have hd: "mix b k1 = mix b k2"
    and tl: "xor_bytes bs ks1' = xor_bytes bs ks2'"
    by (simp_all add: ks1 ks2)
  have "k1 = k2" using hd by (rule mix_same_left)
  moreover have "ks1' = ks2'" using l1 l2 tl by (rule Cons.IH)
  ultimately show ?case by (simp add: ks1 ks2)
qed

lemma xor_bytes_twice: "length bs \<le> length ks \<Longrightarrow> xor_bytes (xor_bytes bs ks) ks = bs"
  by (induction bs ks rule: xor_bytes.induct) (simp_all add: mix_twice)

lemma length_pad_to: "length (pad_to n bs) = n"
  by (simp add: pad_to_def)

lemma pad_to_exact: "length bs = n \<Longrightarrow> pad_to n bs = bs"
  by (simp add: pad_to_def)

lemma length_toy_keystream: "length (toy_keystream key nonce n) = n"
  by (simp add: toy_keystream_def length_pad_to)

lemma length_toy_tag: "length (toy_tag key nonce) = 16"
  by (simp add: toy_tag_def length_pad_to)

lemma toy_tag_nonce:
  assumes "toy_tag k1 n1 = toy_tag k2 n2" "length n1 = 12" "length n2 = 12"
  shows "n1 = n2"
proof -
  have "take 12 (toy_tag k1 n1) = take 12 (toy_tag k2 n2)"
    using assms(1) by simp
  then show ?thesis
    using assms(2,3) by (simp add: toy_tag_def pad_to_exact)
qed

lemma toy_keystream_nonce:
  assumes "toy_keystream k1 n1 m = toy_keystream k2 n2 m" "length n1 = 12" "length n2 = 12" "12 \<le> m"
  shows "n1 = n2"
proof -
  have ks: "take 12 (toy_keystream k n m) = n" if "length n = 12" for k n
    using that assms(4) by (simp add: toy_keystream_def pad_to_exact) (simp add: pad_to_def)
  have "take 12 (toy_keystream k1 n1 m) = take 12 (toy_keystream k2 n2 m)"
    using assms(1) by simp
  then show ?thesis using assms(2,3) by (simp add: ks)
qed

lemma toy_aead2_parts:
  "take (length (toy_aead2 k n p a) - 16) (toy_aead2 k n p a) =
     xor_bytes p (toy_keystream k n (length p))"
  "drop (length (toy_aead2 k n p a) - 16) (toy_aead2 k n p a) = toy_tag k n"
  by (simp_all add: toy_aead2_def length_xor_bytes length_toy_keystream length_toy_tag)

lemma toy_aead2_nonce:
  assumes "toy_aead2 k1 n1 p a1 = toy_aead2 k2 n2 p a2" "length n1 = 12" "length n2 = 12"
  shows "n1 = n2"
proof -
  have "drop (length (toy_aead2 k1 n1 p a1) - 16) (toy_aead2 k1 n1 p a1) =
        drop (length (toy_aead2 k2 n2 p a2) - 16) (toy_aead2 k2 n2 p a2)"
    using assms(1) by simp
  then have "toy_tag k1 n1 = toy_tag k2 n2" by (simp only: toy_aead2_parts)
  then show ?thesis using assms(2,3) by (rule toy_tag_nonce)
qed

lemma toy_aead2_ciphertext_nonce:
  assumes "take (length (toy_aead2 k1 n1 p a1) - 16) (toy_aead2 k1 n1 p a1) =
           take (length (toy_aead2 k2 n2 p a2) - 16) (toy_aead2 k2 n2 p a2)"
    "length n1 = 12" "length n2 = 12" "12 \<le> length p"
  shows "n1 = n2"
proof -
  have "xor_bytes p (toy_keystream k1 n1 (length p)) = xor_bytes p (toy_keystream k2 n2 (length p))"
    using assms(1) by (simp only: toy_aead2_parts)
  with length_toy_keystream length_toy_keystream
  have "toy_keystream k1 n1 (length p) = toy_keystream k2 n2 (length p)"
    by (rule xor_bytes_same_left)
  then show ?thesis using assms(2,3,4) by (rule toy_keystream_nonce)
qed

lemma toy2_reads:
  "Read toy2 chacha_NonceSize 0 = (Inr (replicate 12 (CHR ''x'')), 1)"
  "Read toy2 chacha_NonceSize 1 = (Inr (replicate 12 (CHR ''y'')), 2)"
  "Read toy2 chacha_KeySize 1 = (Inr (replicate 32 (CHR ''y'')), 2)"
  "Read toy2 chacha_KeySize 2 = (Inr (replicate 32 (CHR ''x'')), 3)"
  by (simp_all add: toy2_def toy_def Read_def andThen_def return_ok_def chacha_NonceSize_def
        chacha_KeySize_def)

lemma toy2_cipher: "chacha_New toy2 k = Inr ch \<longleftrightarrow> ch = toy_aead2 k"
  by (auto simp: toy2_def toy_def)

lemma toy2_box: "kms_NewCryptoBox toy2 w = (Inr bx, w') \<longleftrightarrow> bx = toy_box \<and> w' = w"
  by (auto simp: toy2_def toy_def)

lemma toy_box_Easy: "Easy toy_box k n r s w = (Inr b, w') \<longleftrightarrow> b = ''easy('' @ k @ '')'' \<and> w' = w"
  by (auto simp: toy_box_def)

lemma legacyEnvelope_of_json_inverse: "legacyEnvelope_of_json (legacyEnvelope_json e) = Some e"
  by (simp add: legacyEnvelope_of_json_def legacyEnvelope_json_def string_field_def)

lemma recipient_of_json_inverse: "recipient_of_json (recipient_json r) = Some r"
  by (simp add: recipient_of_json_def recipient_json_def recipientHeader_of_json_def
      recipientHeader_json_def string_field_def object_field_def)

lemma recipients_of_json_inverse: "recipients_of_json (map recipient_json rs) = Some rs"
  by (induction rs) (simp_all add: recipient_of_json_inverse)

lemma protected_of_json_inverse: "protected_of_json (protected_json p) = Some p"
  by (simp add: protected_of_json_def protected_json_def string_field_def object_field_def
      recipients_of_json_inverse)

lemma thenDo_Inr: "thenDo (Inr a) f = f a"
  by (simp add: thenDo_def)

lemma orFail_Inr: "orFail kind (Inr a) = Inr a"
  by (simp add: orFail_def)

lemma orMissing_Some: "orMissing kind (Some a) = Inr a"
  by (simp add: orMissing_def)

lemma find_own_recipient:
  assumes built: "buildRecipients c cek senderKey recPubKeys w = (Inr rs, w')"
    and member: "pub \<in> set recPubKeys"
    and b58: "\<And>x y. base58_Encode c x = base58_Encode c y \<Longrightarrow> x = y"
  shows "\<exists>r wi wi'. find (\<lambda>r. KID (Header r) = base58_Encode c pub) rs = Some r \<and>
           buildRecipient c cek senderKey pub wi = (Inr r, wi')"
proof -
  have len: "length rs = length recPubKeys" using built by (rule buildRecipients_Inr(1))
  have kids: "KID (Header (rs ! j)) = base58_Encode c (recPubKeys ! j)" if "j < length recPubKeys" for j
  proof -
    from buildRecipients_Inr(2) [OF built that] obtain wi wi' where
      "buildRecipient c cek senderKey (recPubKeys ! j) wi = (Inr (rs ! j), wi')" by blast
    then show ?thesis by (rule buildRecipient_KID)
  qed
  from member obtain i where i: "i < length recPubKeys" "recPubKeys ! i = pub"
    by (auto simp: in_set_conv_nth)
  have "rs ! i \<in> set rs" using i(1) len by simp
  moreover have "KID (Header (rs ! i)) = base58_Encode c pub" using kids [OF i(1)] i(2) by simp
  ultimately have "find (\<lambda>r. KID (Header r) = base58_Encode c pub) rs \<noteq> None"
    by (auto simp: find_None_iff)
  then obtain r where r: "find (\<lambda>r. KID (Header r) = base58_Encode c pub) rs = Some r" by auto
  then obtain j where j: "j < length rs" "KID (Header (rs ! j)) = base58_Encode c pub" "r = rs ! j"
    by (auto simp: find_Some_iff)
  from j(1) len have j': "j < length recPubKeys" by simp
  from kids [OF j'] j(2) have "base58_Encode c (recPubKeys ! j) = base58_Encode c pub" by simp
  then have same: "recPubKeys ! j = pub" by (rule b58)
  from buildRecipients_Inr(2) [OF built j'] obtain wi wi' where
    "buildRecipient c cek senderKey (recPubKeys ! j) wi = (Inr (rs ! j), wi')" by blast
  with same j(3) have "buildRecipient c cek senderKey pub wi = (Inr r, wi')" by simp
  with r show ?thesis by blast
qed

lemma toy2_run_two: "Encrypt toy2 ''hello'' ''S'' [''Q'', ''R''] 0 = (Inr toy2_envelope_two, 6)"
  by (simp add: toy_defs toy2_defs toy2_envelope_two_def replicate_numeral_unfold)

lemma toy_open_sealed:
  "chacha_Open toy_decrypter key nonce (toy_aead2 key nonce plaintext additionalData) additionalData
     = Inr plaintext"
proof -
  have len: "length (toy_aead2 key nonce plaintext additionalData) = length plaintext + 16"
    by (simp add: toy_aead2_def length_xor_bytes length_toy_keystream length_toy_tag)
  have twice: "xor_bytes (xor_bytes plaintext (toy_keystream key nonce (length plaintext)))
                (toy_keystream key nonce (length plaintext)) = plaintext"
    by (rule xor_bytes_twice) (simp add: length_toy_keystream)
  show ?thesis
    using toy_aead2_parts [of key nonce plaintext additionalData]
    by (simp add: toy_decrypter_def len twice)
qed

text \<open>
  Ciphertexts of one byte take 256 values: among 257 sealed one-byte payloads, each
  sealed to one byte and a tag, two have the same ciphertext, whatever the keys and
  nonces.
\<close>

lemma one_byte_ciphertexts_repeat:
  fixes sealed :: "nat \<Rightarrow> bytes"
  assumes len: "\<And>i. i \<le> 256 \<Longrightarrow> length (sealed i) = 1 + poly1305_TagSize"
  shows "\<exists>i j. i < j \<and> j \<le> 256 \<and>
           take (length (sealed i) - poly1305_TagSize) (sealed i) =
           take (length (sealed j) - poly1305_TagSize) (sealed j)"
proof -
  have "card ((\<lambda>i. hd (sealed i)) ` {..256}) \<le> card (UNIV :: char set)"
    by (rule card_mono) simp_all
  also have "\<dots> < card {..256::nat}" by (simp add: card_UNIV_char)
  finally have "\<not> inj_on (\<lambda>i. hd (sealed i)) {..256}" by (rule pigeonhole)
  then obtain i j where ij: "i \<le> 256" "j \<le> 256" "i \<noteq> j" "hd (sealed i) = hd (sealed j)"
    by (auto simp: inj_on_def)
  have first: "take (length (sealed k) - poly1305_TagSize) (sealed k) = [hd (sealed k)]"
    if "k \<le> 256" for k
    using len [OF that] by (cases "sealed k") simp_all
  have same: "take (length (sealed i) - poly1305_TagSize) (sealed i) =
              take (length (sealed j) - poly1305_TagSize) (sealed j)"
    using first [OF ij(1)] first [OF ij(2)] ij(4) by simp
  show ?thesis
  proof (cases "i < j")
    case True
    with ij(2) same show ?thesis by blast
  next
    case False
    with ij(3) have "j < i" by simp
    with ij(1) same [symmetric] show ?thesis by blast
  qed
qed

section \<open>Properties\<close>

text \<open>
  C1. For every payload and sender key, \<open>Encrypt\<close> with an empty sequence of
  recipient keys returns the error for invalid input (the empty-recipients error) and
  no result. This holds for every randomness source, key service and library function,
  and the world is returned as it was: no byte was read from the randomness source and
  no cryptographic operation took part in the call.
\<close>

theorem Encrypt_empty_recipients:
  "Encrypt c payload sender [] w =
     (Inl (GoError ''empty recipients keys, must have at least one recipient''), w)"
  by (simp add: Encrypt_def return_err_def)

text \<open>
  C2. Round trip. Let \<open>Encrypt\<close> succeed for a payload, a sender key and a list of
  recipient keys, and take a private key whose public key is in the list. If the
  decoders undo the encoders, \<open>SealOpen\<close> and \<open>EasyOpen\<close> undo \<open>Seal\<close> and
  \<open>Easy\<close> for this key pair and the sender's, and the cipher opens what it sealed,
  then \<open>Decrypt\<close> of the envelope with that private key returns exactly the payload
  and the sender key. This holds for every payload, the non-empty ones among them.
\<close>

theorem Decrypt_Encrypt:
  assumes enc: "Encrypt c payload sender recipientPubKeys w = (Inr envelope, w')"
    and member: "publicKeyOf d ownPrivateKey \<in> set recipientPubKeys"
    and json: "\<And>j bs. json_Marshal c j = Inr bs \<Longrightarrow> json_Unmarshal d bs = Inr j"
    and b64: "\<And>bs. base64_DecodeString d (base64_EncodeToString c bs) = Inr bs"
    and b58: "\<And>bs. base58_Decode d (base58_Encode c bs) = bs"
    and own: "agreementPrivateKey d ownPrivateKey = Inr ownEncPriv"
    and senderPub: "cryptoutil_PublicEd25519toCurve25519 c sender = Inr senderEncPub"
    and seal: "\<And>bx wx wa ws wb message recEncKey sealed.
        kms_NewCryptoBox c wx = (Inr bx, wa) \<Longrightarrow>
        cryptoutil_PublicEd25519toCurve25519 c (publicKeyOf d ownPrivateKey) = Inr recEncKey \<Longrightarrow>
        Seal bx message recEncKey ws = (Inr sealed, wb) \<Longrightarrow>
        box_SealOpen d sealed ownEncPriv = Inr message"
    and easy: "\<And>bx wx wa ws wb wk wk' senderEncKey recEncKey secret wrapNonce boxed.
        kms_ConvertToEncryptionKey c sender wk = (Inr senderEncKey, wk') \<Longrightarrow>
        kms_NewCryptoBox c wx = (Inr bx, wa) \<Longrightarrow>
        cryptoutil_PublicEd25519toCurve25519 c (publicKeyOf d ownPrivateKey) = Inr recEncKey \<Longrightarrow>
        Easy bx secret wrapNonce recEncKey senderEncKey ws = (Inr boxed, wb) \<Longrightarrow>
        box_EasyOpen d boxed wrapNonce senderEncPub ownEncPriv = Inr secret"
    and aead: "\<And>key cipher nonce plaintext additionalData.
        chacha_New c key = Inr cipher \<Longrightarrow>
        chacha_Open d key nonce (cipher nonce plaintext additionalData) additionalData = Inr plaintext"
  shows "Decrypt c d envelope ownPrivateKey = Inr (payload, sender)"
proof -
  from enc obtain nonce w1 cek w2 recipients protectedBytes chachaCipher symPld env where
    rs: "buildRecipients c cek sender recipientPubKeys w2 = (Inr recipients, w')"
    and hdr: "json_Marshal c (protected_json
        \<lparr>Enc = ''chacha20poly1305_ietf'', Typ = ''JWM/1.0'', Alg = ''Authcrypt'',
         Recipients = recipients\<rparr>) = Inr protectedBytes"
    and new: "chacha_New c cek = Inr chachaCipher"
    and sym: "symPld = chachaCipher nonce payload (base64_EncodeToString c protectedBytes)"
    and env: "env = \<lparr>Protected = base64_EncodeToString c protectedBytes,
            EnvIV = base64_EncodeToString c nonce,
            CipherText = base64_EncodeToString c (take (length symPld - poly1305_TagSize) symPld),
            Tag = base64_EncodeToString c (drop (length symPld - poly1305_TagSize) symPld)\<rparr>"
    and out: "json_Marshal c (legacyEnvelope_json env) = Inr envelope"
    by (rule Encrypt_success_env)
  have b58_inj: "x = y" if "base58_Encode c x = base58_Encode c y" for x y
  proof -
    from that have "base58_Decode d (base58_Encode c x) = base58_Decode d (base58_Encode c y)"
      by (rule arg_cong)
    then show ?thesis by (simp only: b58)
  qed
  from find_own_recipient [OF rs member b58_inj] obtain r wi wi' where
    found: "find (\<lambda>r. KID (Header r) = base58_Encode c (publicKeyOf d ownPrivateKey)) recipients = Some r"
    and built: "buildRecipient c cek sender (publicKeyOf d ownPrivateKey) wi = (Inr r, wi')"
    by blast
  from built obtain wrapNonce wa senderEncKey wb recEncKey bx wc encCEK wd encSender where
    conv: "kms_ConvertToEncryptionKey c sender wa = (Inr senderEncKey, wb)"
    and rec: "cryptoutil_PublicEd25519toCurve25519 c (publicKeyOf d ownPrivateKey) = Inr recEncKey"
    and mk: "kms_NewCryptoBox c wb = (Inr bx, wc)"
    and boxed: "Easy bx cek wrapNonce recEncKey senderEncKey wc = (Inr encCEK, wd)"
    and sealed: "Seal bx (base58_Encode c sender) recEncKey wd = (Inr encSender, wi')"
    and r: "r = \<lparr>EncryptedKey = base64_EncodeToString c encCEK,
             Header = \<lparr>KID = base58_Encode c (publicKeyOf d ownPrivateKey),
                       Sender = base64_EncodeToString c encSender,
                       IV = base64_EncodeToString c wrapNonce\<rparr>\<rparr>"
    unfolding buildRecipient_Inr by blast
  have s1: "json_Unmarshal d envelope = Inr (legacyEnvelope_json env)"
    using out by (rule json)
  have s2: "json_Unmarshal d protectedBytes = Inr (protected_json
        \<lparr>Enc = ''chacha20poly1305_ietf'', Typ = ''JWM/1.0'', Alg = ''Authcrypt'',
         Recipients = recipients\<rparr>)"
    using hdr by (rule json)
  have s3: "box_SealOpen d encSender ownEncPriv = Inr (base58_Encode c sender)"
    using mk rec sealed by (rule seal)
  have s4: "box_EasyOpen d encCEK wrapNonce senderEncPub ownEncPriv = Inr cek"
    using conv mk rec boxed by (rule easy)
  have s5: "chacha_Open d cek nonce symPld (base64_EncodeToString c protectedBytes) = Inr payload"
    unfolding sym using new by (rule aead)
  have s6: "take (length symPld - poly1305_TagSize) symPld @
            drop (length symPld - poly1305_TagSize) symPld = symPld"
    by simp
  have e: "Protected env = base64_EncodeToString c protectedBytes"
    "EnvIV env = base64_EncodeToString c nonce"
    "CipherText env = base64_EncodeToString c (take (length symPld - poly1305_TagSize) symPld)"
    "Tag env = base64_EncodeToString c (drop (length symPld - poly1305_TagSize) symPld)"
    by (simp_all add: env)
  have f: "EncryptedKey r = base64_EncodeToString c encCEK"
    "Sender (Header r) = base64_EncodeToString c encSender"
    "IV (Header r) = base64_EncodeToString c wrapNonce"
    by (simp_all add: r)
  show ?thesis
    by (simp only: Decrypt_def thenDo_Inr orFail_Inr orMissing_Some Let_def s1
        legacyEnvelope_of_json_inverse e b64 s2 protected_of_json_inverse protected.simps
        found own f s3 b58 senderPub s4 s5 s6)
qed

theorem Decrypt_Encrypt_witness:
  "Encrypt toy2 ''hello'' ''S'' [''Q'', ''R''] 0 = (Inr toy2_envelope_two, 6) \<and>
   publicKeyOf toy_decrypter ''priv-R'' \<in> set [''Q'', ''R''] \<and>
   agreementPrivateKey toy_decrypter ''priv-R'' = Inr ''curve-priv-R'' \<and>
   cryptoutil_PublicEd25519toCurve25519 toy2 ''S'' = Inr ''curve-S'' \<and>
   Decrypt toy2 toy_decrypter toy2_envelope_two ''priv-R'' = Inr (''hello'', ''S'')"
proof -
  have member: "publicKeyOf toy_decrypter ''priv-R'' \<in> set [''Q'', ''R'']"
    by (simp add: toy_decrypter_def)
  have own: "agreementPrivateKey toy_decrypter ''priv-R'' = Inr ''curve-priv-R''"
    by (simp add: toy_decrypter_def)
  have senderPub: "cryptoutil_PublicEd25519toCurve25519 toy2 ''S'' = Inr ''curve-S''"
    by (simp add: toy2_def toy_def)
  have "Decrypt toy2 toy_decrypter toy2_envelope_two ''priv-R'' = Inr (''hello'', ''S'')"
  proof (rule Decrypt_Encrypt [OF toy2_run_two member _ _ _ own senderPub])
    show "json_Unmarshal toy_decrypter bs = Inr j" if "json_Marshal toy2 j = Inr bs" for j bs
      using that by (auto simp: toy2_def toy_def toy_decrypter_def toy_unmarshal_postfix)
    show "base64_DecodeString toy_decrypter (base64_EncodeToString toy2 bs) = Inr bs" for bs
      by (simp add: toy2_def toy_def toy_decrypter_def)
    show "base58_Decode toy_decrypter (base58_Encode toy2 bs) = bs" for bs
      by (simp add: toy2_def toy_def toy_decrypter_def)
    show "box_SealOpen toy_decrypter sealed ''curve-priv-R'' = Inr message"
      if "kms_NewCryptoBox toy2 wx = (Inr bx, wa)" "Seal bx message recEncKey ws = (Inr sealed, wb)"
      for bx wx wa ws wb message recEncKey sealed
      using that by (auto simp: toy2_box toy_box_def toy_decrypter_def)
    show "box_EasyOpen toy_decrypter boxed wrapNonce ''curve-S'' ''curve-priv-R'' = Inr secret"
      if "kms_NewCryptoBox toy2 wx = (Inr bx, wa)"
        "Easy bx secret wrapNonce recEncKey senderEncKey ws = (Inr boxed, wb)"
      for bx wx wa ws wb senderEncKey recEncKey secret wrapNonce boxed
      using that by (auto simp: toy2_box toy_box_Easy toy_decrypter_def)
    show "chacha_Open toy_decrypter key nonce (cipher nonce plaintext additionalData) additionalData
            = Inr plaintext"
      if "chacha_New toy2 key = Inr cipher" for key cipher nonce plaintext additionalData
      using that by (simp add: toy2_cipher toy_open_sealed)
  qed
  with toy2_run_two member own senderPub show ?thesis by (intro conjI)
qed

text \<open>
  C10. The slice \<open>recKeys\<close> is never read: on every input \<open>Encrypt\<close> returns the same
  value, the same error and the same world as \<open>Encrypt\<close> without its construction.
\<close>

theorem Encrypt_recKeys_unused:
  "Encrypt c payload sender recipientPubKeys w =
   Encrypt_without_recKeys c payload sender recipientPubKeys w"
  by (simp add: Encrypt_def Encrypt_without_recKeys_def Let_def)

text \<open>
  C3. On success the returned bytes are the serialization of a JSON object with exactly
  the four fields \<open>protected\<close>, \<open>iv\<close>, \<open>ciphertext\<close> and \<open>tag\<close>, in this order;
  their values are the base64 encodings of the serialized protected header, of the
  payload nonce, of the ciphertext and of the authentication tag, where ciphertext and
  tag are the two parts of what the cipher sealed.
\<close>

theorem Encrypt_envelope_fields:
  assumes "Encrypt c payload sender recipientPubKeys w = (Inr out, w')"
  shows "\<exists>nonce w1 cek w2 recipients protectedBytes chachaCipher cipherText tag.
     Read c chacha_NonceSize w = (Inr nonce, w1) \<and>
     Read c chacha_KeySize w1 = (Inr cek, w2) \<and>
     buildRecipients c cek sender recipientPubKeys w2 = (Inr recipients, w') \<and>
     json_Marshal c (protected_json
        \<lparr>Enc = ''chacha20poly1305_ietf'', Typ = ''JWM/1.0'', Alg = ''Authcrypt'',
         Recipients = recipients\<rparr>) = Inr protectedBytes \<and>
     chacha_New c cek = Inr chachaCipher \<and>
     chachaCipher nonce payload (base64_EncodeToString c protectedBytes) = cipherText @ tag \<and>
     length tag = poly1305_TagSize \<and>
     json_Marshal c (JObject
        [(''protected'', JString (base64_EncodeToString c protectedBytes)),
         (''iv'', JString (base64_EncodeToString c nonce)),
         (''ciphertext'', JString (base64_EncodeToString c cipherText)),
         (''tag'', JString (base64_EncodeToString c tag))]) = Inr out"
proof -
  from assms obtain nonce w1 cek w2 recipients protectedBytes chachaCipher where
    reads: "Read c chacha_NonceSize w = (Inr nonce, w1)" "Read c chacha_KeySize w1 = (Inr cek, w2)"
    and rs: "buildRecipients c cek sender recipientPubKeys w2 = (Inr recipients, w')"
    and hdr: "json_Marshal c (protected_json
        \<lparr>Enc = ''chacha20poly1305_ietf'', Typ = ''JWM/1.0'', Alg = ''Authcrypt'',
         Recipients = recipients\<rparr>) = Inr protectedBytes"
    and new: "chacha_New c cek = Inr chachaCipher"
    and long: "poly1305_TagSize \<le> length (chachaCipher nonce payload (base64_EncodeToString c protectedBytes))"
    and out: "json_Marshal c (legacyEnvelope_json
        \<lparr>Protected = base64_EncodeToString c protectedBytes,
         EnvIV = base64_EncodeToString c nonce,
         CipherText = base64_EncodeToString c
           (take (length (chachaCipher nonce payload (base64_EncodeToString c protectedBytes)) - poly1305_TagSize)
              (chachaCipher nonce payload (base64_EncodeToString c protectedBytes))),
         Tag = base64_EncodeToString c
           (drop (length (chachaCipher nonce payload (base64_EncodeToString c protectedBytes)) - poly1305_TagSize)
              (chachaCipher nonce payload (base64_EncodeToString c protectedBytes)))\<rparr>) = Inr out"
    by (rule Encrypt_success)
  define symPld where "symPld = chachaCipher nonce payload (base64_EncodeToString c protectedBytes)"
  define cipherText where "cipherText = take (length symPld - poly1305_TagSize) symPld"
  define tag where "tag = drop (length symPld - poly1305_TagSize) symPld"
  have split: "symPld = cipherText @ tag" by (simp add: cipherText_def tag_def)
  have len: "length tag = poly1305_TagSize" using long by (simp add: tag_def symPld_def)
  have "json_Marshal c (JObject
        [(''protected'', JString (base64_EncodeToString c protectedBytes)),
         (''iv'', JString (base64_EncodeToString c nonce)),
         (''ciphertext'', JString (base64_EncodeToString c cipherText)),
         (''tag'', JString (base64_EncodeToString c tag))]) = Inr out"
    using out by (simp add: legacyEnvelope_json_def cipherText_def tag_def symPld_def)
  with reads rs hdr new split len show ?thesis unfolding symPld_def by blast
qed

theorem Encrypt_envelope_fields_witness:
  "Encrypt toy ''hi'' ''S'' [''R''] 0 = (Inr toy_envelope, 4) \<and>
     (\<exists>nonce w1 cek w2 recipients protectedBytes chachaCipher cipherText tag.
     Read toy chacha_NonceSize 0 = (Inr nonce, w1) \<and>
     Read toy chacha_KeySize w1 = (Inr cek, w2) \<and>
     buildRecipients toy cek ''S'' [''R''] w2 = (Inr recipients, 4) \<and>
     json_Marshal toy (protected_json
        \<lparr>Enc = ''chacha20poly1305_ietf'', Typ = ''JWM/1.0'', Alg = ''Authcrypt'',
         Recipients = recipients\<rparr>) = Inr protectedBytes \<and>
     chacha_New toy cek = Inr chachaCipher \<and>
     chachaCipher nonce ''hi'' (base64_EncodeToString toy protectedBytes) = cipherText @ tag \<and>
     length tag = poly1305_TagSize \<and>
     json_Marshal toy (JObject
        [(''protected'', JString (base64_EncodeToString toy protectedBytes)),
         (''iv'', JString (base64_EncodeToString toy nonce)),
         (''ciphertext'', JString (base64_EncodeToString toy cipherText)),
         (''tag'', JString (base64_EncodeToString toy tag))]) = Inr toy_envelope)"
  using Encrypt_envelope_fields [OF toy_run] toy_run by blast

text \<open>
  C4. On success the serialized protected header is the serialization of the object
  with \<open>enc = chacha20poly1305_ietf\<close>, \<open>typ = JWM/1.0\<close>, \<open>alg = Authcrypt\<close> and the
  list \<open>recipients\<close>; that list has one entry per key of \<open>recipientPubKeys\<close>, in the
  order of the keys: entry \<open>i\<close> is the one built for key \<open>i\<close> and carries its key
  identifier. The envelope's \<open>protected\<close> field is the base64 encoding of that header.
\<close>

theorem Encrypt_protected_header:
  assumes "Encrypt c payload sender recipientPubKeys w = (Inr out, w')"
  shows "\<exists>cek w2 recipients protectedBytes env.
     buildRecipients c cek sender recipientPubKeys w2 = (Inr recipients, w') \<and>
     length recipients = length recipientPubKeys \<and>
     map (\<lambda>r. KID (Header r)) recipients = map (base58_Encode c) recipientPubKeys \<and>
     (\<forall>i<length recipientPubKeys. \<exists>wi wi'.
        buildRecipient c cek sender (recipientPubKeys ! i) wi = (Inr (recipients ! i), wi')) \<and>
     json_Marshal c (JObject
        [(''enc'', JString ''chacha20poly1305_ietf''),
         (''typ'', JString ''JWM/1.0''),
         (''alg'', JString ''Authcrypt''),
         (''recipients'', JArray (map recipient_json recipients))]) = Inr protectedBytes \<and>
     Protected env = base64_EncodeToString c protectedBytes \<and>
     json_Marshal c (legacyEnvelope_json env) = Inr out"
proof -
  from assms obtain nonce w1 cek w2 recipients protectedBytes chachaCipher where
    rs: "buildRecipients c cek sender recipientPubKeys w2 = (Inr recipients, w')"
    and hdr: "json_Marshal c (protected_json
        \<lparr>Enc = ''chacha20poly1305_ietf'', Typ = ''JWM/1.0'', Alg = ''Authcrypt'',
         Recipients = recipients\<rparr>) = Inr protectedBytes"
    and out: "json_Marshal c (legacyEnvelope_json
        \<lparr>Protected = base64_EncodeToString c protectedBytes,
         EnvIV = base64_EncodeToString c nonce,
         CipherText = base64_EncodeToString c
           (take (length (chachaCipher nonce payload (base64_EncodeToString c protectedBytes)) - poly1305_TagSize)
              (chachaCipher nonce payload (base64_EncodeToString c protectedBytes))),
         Tag = base64_EncodeToString c
           (drop (length (chachaCipher nonce payload (base64_EncodeToString c protectedBytes)) - poly1305_TagSize)
              (chachaCipher nonce payload (base64_EncodeToString c protectedBytes)))\<rparr>) = Inr out"
    by (rule Encrypt_success)
  have "json_Marshal c (JObject
        [(''enc'', JString ''chacha20poly1305_ietf''),
         (''typ'', JString ''JWM/1.0''),
         (''alg'', JString ''Authcrypt''),
         (''recipients'', JArray (map recipient_json recipients))]) = Inr protectedBytes"
    using hdr by (simp add: protected_json_def)
  moreover note rs buildRecipients_Inr(1) [OF rs] buildRecipients_KIDs [OF rs]
  moreover have "\<forall>i<length recipientPubKeys. \<exists>wi wi'.
        buildRecipient c cek sender (recipientPubKeys ! i) wi = (Inr (recipients ! i), wi')"
    using buildRecipients_Inr(2) [OF rs] by blast
  moreover have "Protected \<lparr>Protected = base64_EncodeToString c protectedBytes,
         EnvIV = base64_EncodeToString c nonce,
         CipherText = base64_EncodeToString c
           (take (length (chachaCipher nonce payload (base64_EncodeToString c protectedBytes)) - poly1305_TagSize)
              (chachaCipher nonce payload (base64_EncodeToString c protectedBytes))),
         Tag = base64_EncodeToString c
           (drop (length (chachaCipher nonce payload (base64_EncodeToString c protectedBytes)) - poly1305_TagSize)
              (chachaCipher nonce payload (base64_EncodeToString c protectedBytes)))\<rparr>
       = base64_EncodeToString c protectedBytes" by simp
  ultimately show ?thesis using out by blast
qed

theorem Encrypt_protected_header_witness:
  "Encrypt toy ''hi'' ''S'' [''R''] 0 = (Inr toy_envelope, 4) \<and>
   (\<exists>cek w2 recipients protectedBytes env.
     buildRecipients toy cek ''S'' [''R''] w2 = (Inr recipients, 4) \<and>
     length recipients = length [''R''] \<and>
     map (\<lambda>r. KID (Header r)) recipients = map (base58_Encode toy) [''R''] \<and>
     (\<forall>i<length [''R'']. \<exists>wi wi'.
        buildRecipient toy cek ''S'' ([''R''] ! i) wi = (Inr (recipients ! i), wi')) \<and>
     json_Marshal toy (JObject
        [(''enc'', JString ''chacha20poly1305_ietf''),
         (''typ'', JString ''JWM/1.0''),
         (''alg'', JString ''Authcrypt''),
         (''recipients'', JArray (map recipient_json recipients))]) = Inr protectedBytes \<and>
     Protected env = base64_EncodeToString toy protectedBytes \<and>
     json_Marshal toy (legacyEnvelope_json env) = Inr toy_envelope)"
  using Encrypt_protected_header [OF toy_run] toy_run by blast

text \<open>
  C5. On success the additional data given to the cipher for the payload is the
  base64 encoding of the serialized protected header, and the same string is the
  \<open>protected\<close> field of the envelope; ciphertext and tag of the envelope come from
  the seal made with it.
\<close>

theorem Encrypt_aad_is_protected:
  assumes "Encrypt c payload sender recipientPubKeys w = (Inr out, w')"
  shows "\<exists>nonce w1 cek w2 recipients protectedBytes chachaCipher additionalData symPld env.
     Read c chacha_NonceSize w = (Inr nonce, w1) \<and>
     Read c chacha_KeySize w1 = (Inr cek, w2) \<and>
     buildRecipients c cek sender recipientPubKeys w2 = (Inr recipients, w') \<and>
     json_Marshal c (protected_json
        \<lparr>Enc = ''chacha20poly1305_ietf'', Typ = ''JWM/1.0'', Alg = ''Authcrypt'',
         Recipients = recipients\<rparr>) = Inr protectedBytes \<and>
     additionalData = base64_EncodeToString c protectedBytes \<and>
     chacha_New c cek = Inr chachaCipher \<and>
     symPld = chachaCipher nonce payload additionalData \<and>
     Protected env = additionalData \<and>
     CipherText env = base64_EncodeToString c (take (length symPld - poly1305_TagSize) symPld) \<and>
     Tag env = base64_EncodeToString c (drop (length symPld - poly1305_TagSize) symPld) \<and>
     json_Marshal c (legacyEnvelope_json env) = Inr out"
proof -
  from assms obtain nonce w1 cek w2 recipients protectedBytes chachaCipher where
    reads: "Read c chacha_NonceSize w = (Inr nonce, w1)" "Read c chacha_KeySize w1 = (Inr cek, w2)"
    and rs: "buildRecipients c cek sender recipientPubKeys w2 = (Inr recipients, w')"
    and hdr: "json_Marshal c (protected_json
        \<lparr>Enc = ''chacha20poly1305_ietf'', Typ = ''JWM/1.0'', Alg = ''Authcrypt'',
         Recipients = recipients\<rparr>) = Inr protectedBytes"
    and new: "chacha_New c cek = Inr chachaCipher"
    and out: "json_Marshal c (legacyEnvelope_json
        \<lparr>Protected = base64_EncodeToString c protectedBytes,
         EnvIV = base64_EncodeToString c nonce,
         CipherText = base64_EncodeToString c
           (take (length (chachaCipher nonce payload (base64_EncodeToString c protectedBytes)) - poly1305_TagSize)
              (chachaCipher nonce payload (base64_EncodeToString c protectedBytes))),
         Tag = base64_EncodeToString c
           (drop (length (chachaCipher nonce payload (base64_EncodeToString c protectedBytes)) - poly1305_TagSize)
              (chachaCipher nonce payload (base64_EncodeToString c protectedBytes)))\<rparr>) = Inr out"
    by (rule Encrypt_success)
  define additionalData where "additionalData = base64_EncodeToString c protectedBytes"
  define symPld where "symPld = chachaCipher nonce payload additionalData"
  define env where "env =
        \<lparr>Protected = additionalData,
         EnvIV = base64_EncodeToString c nonce,
         CipherText = base64_EncodeToString c (take (length symPld - poly1305_TagSize) symPld),
         Tag = base64_EncodeToString c (drop (length symPld - poly1305_TagSize) symPld)\<rparr>"
  have "json_Marshal c (legacyEnvelope_json env) = Inr out"
    using out by (simp add: env_def symPld_def additionalData_def)
  moreover have "Protected env = additionalData"
    "CipherText env = base64_EncodeToString c (take (length symPld - poly1305_TagSize) symPld)"
    "Tag env = base64_EncodeToString c (drop (length symPld - poly1305_TagSize) symPld)"
    by (simp_all add: env_def)
  ultimately show ?thesis
    using reads rs hdr new additionalData_def symPld_def by blast
qed

theorem Encrypt_aad_is_protected_witness:
  "Encrypt toy ''hi'' ''S'' [''R''] 0 = (Inr toy_envelope, 4) \<and>
   (\<exists>nonce w1 cek w2 recipients protectedBytes chachaCipher additionalData symPld env.
     Read toy chacha_NonceSize 0 = (Inr nonce, w1) \<and>
     Read toy chacha_KeySize w1 = (Inr cek, w2) \<and>
     buildRecipients toy cek ''S'' [''R''] w2 = (Inr recipients, 4) \<and>
     json_Marshal toy (protected_json
        \<lparr>Enc = ''chacha20poly1305_ietf'', Typ = ''JWM/1.0'', Alg = ''Authcrypt'',
         Recipients = recipients\<rparr>) = Inr protectedBytes \<and>
     additionalData = base64_EncodeToString toy protectedBytes \<and>
     chacha_New toy cek = Inr chachaCipher \<and>
     symPld = chachaCipher nonce ''hi'' additionalData \<and>
     Protected env = additionalData \<and>
     CipherText env = base64_EncodeToString toy (take (length symPld - poly1305_TagSize) symPld) \<and>
     Tag env = base64_EncodeToString toy (drop (length symPld - poly1305_TagSize) symPld) \<and>
     json_Marshal toy (legacyEnvelope_json env) = Inr toy_envelope)"
  using Encrypt_aad_is_protected [OF toy_run] toy_run by blast

text \<open>
  C6. On success what the cipher sealed is the ciphertext followed by a tag of 16
  bytes: the envelope's tag is the last 16 bytes, its ciphertext the bytes before
  them. When the sealed payload is 16 bytes longer than the payload, as the comment
  in \<open>buildEnvelope\<close> states for the cipher, the ciphertext is as long as the payload.
\<close>

theorem Encrypt_tag_split:
  assumes "Encrypt c payload sender recipientPubKeys w = (Inr out, w')"
  shows "\<exists>nonce w1 cek w2 recipients protectedBytes chachaCipher symPld cipherText tag env.
     Read c chacha_NonceSize w = (Inr nonce, w1) \<and>
     Read c chacha_KeySize w1 = (Inr cek, w2) \<and>
     buildRecipients c cek sender recipientPubKeys w2 = (Inr recipients, w') \<and>
     json_Marshal c (protected_json
        \<lparr>Enc = ''chacha20poly1305_ietf'', Typ = ''JWM/1.0'', Alg = ''Authcrypt'',
         Recipients = recipients\<rparr>) = Inr protectedBytes \<and>
     chacha_New c cek = Inr chachaCipher \<and>
     symPld = chachaCipher nonce payload (base64_EncodeToString c protectedBytes) \<and>
     symPld = cipherText @ tag \<and>
     length tag = 16 \<and>
     tag = drop (length symPld - 16) symPld \<and>
     cipherText = take (length symPld - 16) symPld \<and>
     CipherText env = base64_EncodeToString c cipherText \<and>
     Tag env = base64_EncodeToString c tag \<and>
     json_Marshal c (legacyEnvelope_json env) = Inr out \<and>
     (length symPld = length payload + 16 \<longrightarrow> length cipherText = length payload)"
proof -
  from assms obtain nonce w1 cek w2 recipients protectedBytes chachaCipher where
    reads: "Read c chacha_NonceSize w = (Inr nonce, w1)" "Read c chacha_KeySize w1 = (Inr cek, w2)"
    and rs: "buildRecipients c cek sender recipientPubKeys w2 = (Inr recipients, w')"
    and hdr: "json_Marshal c (protected_json
        \<lparr>Enc = ''chacha20poly1305_ietf'', Typ = ''JWM/1.0'', Alg = ''Authcrypt'',
         Recipients = recipients\<rparr>) = Inr protectedBytes"
    and new: "chacha_New c cek = Inr chachaCipher"
    and long: "poly1305_TagSize \<le> length (chachaCipher nonce payload (base64_EncodeToString c protectedBytes))"
    and out: "json_Marshal c (legacyEnvelope_json
        \<lparr>Protected = base64_EncodeToString c protectedBytes,
         EnvIV = base64_EncodeToString c nonce,
         CipherText = base64_EncodeToString c
           (take (length (chachaCipher nonce payload (base64_EncodeToString c protectedBytes)) - poly1305_TagSize)
              (chachaCipher nonce payload (base64_EncodeToString c protectedBytes))),
         Tag = base64_EncodeToString c
           (drop (length (chachaCipher nonce payload (base64_EncodeToString c protectedBytes)) - poly1305_TagSize)
              (chachaCipher nonce payload (base64_EncodeToString c protectedBytes)))\<rparr>) = Inr out"
    by (rule Encrypt_success)
  define symPld where "symPld = chachaCipher nonce payload (base64_EncodeToString c protectedBytes)"
  define cipherText where "cipherText = take (length symPld - 16) symPld"
  define tag where "tag = drop (length symPld - 16) symPld"
  define env where "env =
        \<lparr>Protected = base64_EncodeToString c protectedBytes,
         EnvIV = base64_EncodeToString c nonce,
         CipherText = base64_EncodeToString c cipherText,
         Tag = base64_EncodeToString c tag\<rparr>"
  have split: "symPld = cipherText @ tag" by (simp add: cipherText_def tag_def)
  have len: "length tag = 16"
    using long by (simp add: tag_def symPld_def poly1305_TagSize_def)
  have same: "length symPld = length payload + 16 \<longrightarrow> length cipherText = length payload"
    by (simp add: cipherText_def)
  have marshalled: "json_Marshal c (legacyEnvelope_json env) = Inr out"
    using out by (simp add: env_def cipherText_def tag_def symPld_def poly1305_TagSize_def)
  have fields: "CipherText env = base64_EncodeToString c cipherText"
    "Tag env = base64_EncodeToString c tag"
    by (simp_all add: env_def)
  from reads rs hdr new symPld_def split len tag_def cipherText_def fields marshalled same
  show ?thesis by blast
qed

theorem Encrypt_tag_split_witness:
  "Encrypt toy ''hi'' ''S'' [''R''] 0 = (Inr toy_envelope, 4) \<and>
   (\<exists>nonce w1 cek w2 recipients protectedBytes chachaCipher symPld cipherText tag env.
     Read toy chacha_NonceSize 0 = (Inr nonce, w1) \<and>
     Read toy chacha_KeySize w1 = (Inr cek, w2) \<and>
     buildRecipients toy cek ''S'' [''R''] w2 = (Inr recipients, 4) \<and>
     json_Marshal toy (protected_json
        \<lparr>Enc = ''chacha20poly1305_ietf'', Typ = ''JWM/1.0'', Alg = ''Authcrypt'',
         Recipients = recipients\<rparr>) = Inr protectedBytes \<and>
     chacha_New toy cek = Inr chachaCipher \<and>
     symPld = chachaCipher nonce ''hi'' (base64_EncodeToString toy protectedBytes) \<and>
     symPld = cipherText @ tag \<and>
     length tag = 16 \<and>
     tag = drop (length symPld - 16) symPld \<and>
     cipherText = take (length symPld - 16) symPld \<and>
     CipherText env = base64_EncodeToString toy cipherText \<and>
     Tag env = base64_EncodeToString toy tag \<and>
     json_Marshal toy (legacyEnvelope_json env) = Inr toy_envelope \<and>
     length symPld = length ''hi'' + 16 \<and> length cipherText = length ''hi'')"
proof -
  have law: "length (toy_aead k n p a) = length p + 16" for k n p a
    by (simp add: toy_aead_def)
  have new: "chacha_New toy k = Inr ch \<Longrightarrow> ch = toy_aead k" for k ch
    by (auto simp: toy_def)
  from Encrypt_tag_split [OF toy_run] obtain nonce w1 cek w2 recipients protectedBytes chachaCipher
      symPld cipherText tag env where
    f: "Read toy chacha_NonceSize 0 = (Inr nonce, w1)"
     "Read toy chacha_KeySize w1 = (Inr cek, w2)"
     "buildRecipients toy cek ''S'' [''R''] w2 = (Inr recipients, 4)"
     "json_Marshal toy (protected_json
        \<lparr>Enc = ''chacha20poly1305_ietf'', Typ = ''JWM/1.0'', Alg = ''Authcrypt'',
         Recipients = recipients\<rparr>) = Inr protectedBytes"
     "chacha_New toy cek = Inr chachaCipher"
     "symPld = chachaCipher nonce ''hi'' (base64_EncodeToString toy protectedBytes)"
     "symPld = cipherText @ tag"
     "length tag = 16"
     "tag = drop (length symPld - 16) symPld"
     "cipherText = take (length symPld - 16) symPld"
     "CipherText env = base64_EncodeToString toy cipherText"
     "Tag env = base64_EncodeToString toy tag"
     "json_Marshal toy (legacyEnvelope_json env) = Inr toy_envelope"
     and g: "length symPld = length ''hi'' + 16 \<longrightarrow> length cipherText = length ''hi''"
    by blast
  have l: "length symPld = length ''hi'' + 16"
    using new [OF f(5)] f(6) law by simp
  with g have "length cipherText = length ''hi''" by blast
  with f l toy_run show ?thesis by blast
qed

text \<open>
  C7. On success, for every recipient key \<open>R\<close> the entry of the header has: \<open>kid\<close>
  the base58 encoding of \<open>R\<close>; \<open>encrypted_key\<close> the base64 encoding of the \<open>Easy\<close>
  box of the content key, made with the converted key of \<open>R\<close>, the converted key of
  the sender and a wrap nonce of 24 bytes drawn for this entry; \<open>sender\<close> the base64
  encoding of the \<open>Seal\<close> of the base58 encoding of the sender key to the converted key
  of \<open>R\<close>; \<open>iv\<close> the base64 encoding of that wrap nonce.
\<close>

theorem Encrypt_recipient_entries:
  assumes "Encrypt c payload sender recipientPubKeys w = (Inr out, w')"
  shows "\<exists>nonce w1 cek w2 recipients protectedBytes env.
     Read c chacha_NonceSize w = (Inr nonce, w1) \<and>
     Read c chacha_KeySize w1 = (Inr cek, w2) \<and>
     buildRecipients c cek sender recipientPubKeys w2 = (Inr recipients, w') \<and>
     length recipients = length recipientPubKeys \<and>
     (\<forall>i<length recipientPubKeys.
        \<exists>wrapNonce senderEncKey recEncKey bx encCEK encSender wa wb wc wd we wf.
          Read c 24 wa = (Inr wrapNonce, wb) \<and>
          length wrapNonce = 24 \<and>
          kms_ConvertToEncryptionKey c sender wb = (Inr senderEncKey, wc) \<and>
          cryptoutil_PublicEd25519toCurve25519 c (recipientPubKeys ! i) = Inr recEncKey \<and>
          kms_NewCryptoBox c wc = (Inr bx, wd) \<and>
          Easy bx cek wrapNonce recEncKey senderEncKey wd = (Inr encCEK, we) \<and>
          Seal bx (base58_Encode c sender) recEncKey we = (Inr encSender, wf) \<and>
          recipients ! i =
            \<lparr>EncryptedKey = base64_EncodeToString c encCEK,
             Header = \<lparr>KID = base58_Encode c (recipientPubKeys ! i),
                       Sender = base64_EncodeToString c encSender,
                       IV = base64_EncodeToString c wrapNonce\<rparr>\<rparr>) \<and>
     json_Marshal c (protected_json
        \<lparr>Enc = ''chacha20poly1305_ietf'', Typ = ''JWM/1.0'', Alg = ''Authcrypt'',
         Recipients = recipients\<rparr>) = Inr protectedBytes \<and>
     Protected env = base64_EncodeToString c protectedBytes \<and>
     json_Marshal c (legacyEnvelope_json env) = Inr out"
proof -
  from assms obtain nonce w1 cek w2 recipients protectedBytes chachaCipher where
    reads: "Read c chacha_NonceSize w = (Inr nonce, w1)" "Read c chacha_KeySize w1 = (Inr cek, w2)"
    and rs: "buildRecipients c cek sender recipientPubKeys w2 = (Inr recipients, w')"
    and hdr: "json_Marshal c (protected_json
        \<lparr>Enc = ''chacha20poly1305_ietf'', Typ = ''JWM/1.0'', Alg = ''Authcrypt'',
         Recipients = recipients\<rparr>) = Inr protectedBytes"
    and out: "json_Marshal c (legacyEnvelope_json
        \<lparr>Protected = base64_EncodeToString c protectedBytes,
         EnvIV = base64_EncodeToString c nonce,
         CipherText = base64_EncodeToString c
           (take (length (chachaCipher nonce payload (base64_EncodeToString c protectedBytes)) - poly1305_TagSize)
              (chachaCipher nonce payload (base64_EncodeToString c protectedBytes))),
         Tag = base64_EncodeToString c
           (drop (length (chachaCipher nonce payload (base64_EncodeToString c protectedBytes)) - poly1305_TagSize)
              (chachaCipher nonce payload (base64_EncodeToString c protectedBytes)))\<rparr>) = Inr out"
    by (rule Encrypt_success)
  have entries: "\<forall>i<length recipientPubKeys.
        \<exists>wrapNonce senderEncKey recEncKey bx encCEK encSender wa wb wc wd we wf.
          Read c 24 wa = (Inr wrapNonce, wb) \<and>
          length wrapNonce = 24 \<and>
          kms_ConvertToEncryptionKey c sender wb = (Inr senderEncKey, wc) \<and>
          cryptoutil_PublicEd25519toCurve25519 c (recipientPubKeys ! i) = Inr recEncKey \<and>
          kms_NewCryptoBox c wc = (Inr bx, wd) \<and>
          Easy bx cek wrapNonce recEncKey senderEncKey wd = (Inr encCEK, we) \<and>
          Seal bx (base58_Encode c sender) recEncKey we = (Inr encSender, wf) \<and>
          recipients ! i =
            \<lparr>EncryptedKey = base64_EncodeToString c encCEK,
             Header = \<lparr>KID = base58_Encode c (recipientPubKeys ! i),
                       Sender = base64_EncodeToString c encSender,
                       IV = base64_EncodeToString c wrapNonce\<rparr>\<rparr>"
  proof (intro allI impI)
    fix i assume "i < length recipientPubKeys"
    from buildRecipients_Inr(2) [OF rs this] obtain wa wf where
      "buildRecipient c cek sender (recipientPubKeys ! i) wa = (Inr (recipients ! i), wf)" by blast
    then obtain wrapNonce wb senderEncKey wc recEncKey bx wd encCEK we encSender where
      b: "Read c 24 wa = (Inr wrapNonce, wb)"
        "kms_ConvertToEncryptionKey c sender wb = (Inr senderEncKey, wc)"
        "cryptoutil_PublicEd25519toCurve25519 c (recipientPubKeys ! i) = Inr recEncKey"
        "kms_NewCryptoBox c wc = (Inr bx, wd)"
        "Easy bx cek wrapNonce recEncKey senderEncKey wd = (Inr encCEK, we)"
        "Seal bx (base58_Encode c sender) recEncKey we = (Inr encSender, wf)"
        "recipients ! i =
            \<lparr>EncryptedKey = base64_EncodeToString c encCEK,
             Header = \<lparr>KID = base58_Encode c (recipientPubKeys ! i),
                       Sender = base64_EncodeToString c encSender,
                       IV = base64_EncodeToString c wrapNonce\<rparr>\<rparr>"
      unfolding buildRecipient_Inr by blast
    note Read_length [OF b(1)]
    with b show "\<exists>wrapNonce senderEncKey recEncKey bx encCEK encSender wa wb wc wd we wf.
          Read c 24 wa = (Inr wrapNonce, wb) \<and>
          length wrapNonce = 24 \<and>
          kms_ConvertToEncryptionKey c sender wb = (Inr senderEncKey, wc) \<and>
          cryptoutil_PublicEd25519toCurve25519 c (recipientPubKeys ! i) = Inr recEncKey \<and>
          kms_NewCryptoBox c wc = (Inr bx, wd) \<and>
          Easy bx cek wrapNonce recEncKey senderEncKey wd = (Inr encCEK, we) \<and>
          Seal bx (base58_Encode c sender) recEncKey we = (Inr encSender, wf) \<and>
          recipients ! i =
            \<lparr>EncryptedKey = base64_EncodeToString c encCEK,
             Header = \<lparr>KID = base58_Encode c (recipientPubKeys ! i),
                       Sender = base64_EncodeToString c encSender,
                       IV = base64_EncodeToString c wrapNonce\<rparr>\<rparr>"
      by blast
  qed
  define env where "env =
        \<lparr>Protected = base64_EncodeToString c protectedBytes,
         EnvIV = base64_EncodeToString c nonce,
         CipherText = base64_EncodeToString c
           (take (length (chachaCipher nonce payload (base64_EncodeToString c protectedBytes)) - poly1305_TagSize)
              (chachaCipher nonce payload (base64_EncodeToString c protectedBytes))),
         Tag = base64_EncodeToString c
           (drop (length (chachaCipher nonce payload (base64_EncodeToString c protectedBytes)) - poly1305_TagSize)
              (chachaCipher nonce payload (base64_EncodeToString c protectedBytes)))\<rparr>"
  have "Protected env = base64_EncodeToString c protectedBytes" by (simp add: env_def)
  moreover have "json_Marshal c (legacyEnvelope_json env) = Inr out" using out by (simp add: env_def)
  ultimately show ?thesis
    using reads rs buildRecipients_Inr(1) [OF rs] entries hdr by blast
qed

theorem Encrypt_recipient_entries_witness:
  "Encrypt toy ''hi'' ''S'' [''R''] 0 = (Inr toy_envelope, 4) \<and>
   (\<exists>nonce w1 cek w2 recipients protectedBytes env.
     Read toy chacha_NonceSize 0 = (Inr nonce, w1) \<and>
     Read toy chacha_KeySize w1 = (Inr cek, w2) \<and>
     buildRecipients toy cek ''S'' [''R''] w2 = (Inr recipients, 4) \<and>
     length recipients = length [''R''] \<and>
     (\<forall>i<length [''R''].
        \<exists>wrapNonce senderEncKey recEncKey bx encCEK encSender wa wb wc wd we wf.
          Read toy 24 wa = (Inr wrapNonce, wb) \<and>
          length wrapNonce = 24 \<and>
          kms_ConvertToEncryptionKey toy ''S'' wb = (Inr senderEncKey, wc) \<and>
          cryptoutil_PublicEd25519toCurve25519 toy ([''R''] ! i) = Inr recEncKey \<and>
          kms_NewCryptoBox toy wc = (Inr bx, wd) \<and>
          Easy bx cek wrapNonce recEncKey senderEncKey wd = (Inr encCEK, we) \<and>
          Seal bx (base58_Encode toy ''S'') recEncKey we = (Inr encSender, wf) \<and>
          recipients ! i =
            \<lparr>EncryptedKey = base64_EncodeToString toy encCEK,
             Header = \<lparr>KID = base58_Encode toy ([''R''] ! i),
                       Sender = base64_EncodeToString toy encSender,
                       IV = base64_EncodeToString toy wrapNonce\<rparr>\<rparr>) \<and>
     json_Marshal toy (protected_json
        \<lparr>Enc = ''chacha20poly1305_ietf'', Typ = ''JWM/1.0'', Alg = ''Authcrypt'',
         Recipients = recipients\<rparr>) = Inr protectedBytes \<and>
     Protected env = base64_EncodeToString toy protectedBytes \<and>
     json_Marshal toy (legacyEnvelope_json env) = Inr toy_envelope)"
  using Encrypt_recipient_entries [OF toy_run] toy_run by blast

text \<open>
  C8, as the code has it. \<open>Encrypt\<close> adds nothing to an error: whatever fails, the
  randomness source at the payload nonce or at the content key, the building of any
  one recipient (after any number of recipients already built), or the building of the
  envelope, the call returns that very error and no result, and \<open>buildRecipients\<close>
  returns no list. Inside \<open>buildRecipient\<close> the same holds for the wrap nonce, the
  two key conversions, the making of the box, \<open>Easy\<close> and \<open>Seal\<close>; inside
  \<open>buildEnvelope\<close> for the two serializations and the making of the cipher.
\<close>

theorem Encrypt_failure_returns_the_error:
  assumes "recipientPubKeys \<noteq> []"
  shows
   "(randSource_Read c chacha_NonceSize w = (Inl e, w') \<longrightarrow>
       Encrypt c payload sender recipientPubKeys w = (Inl e, w')) \<and>
    (Read c chacha_NonceSize w = (Inr nonce, w1) \<and>
     randSource_Read c chacha_KeySize w1 = (Inl e, w') \<longrightarrow>
       Encrypt c payload sender recipientPubKeys w = (Inl e, w')) \<and>
    (Read c chacha_NonceSize w = (Inr nonce, w1) \<and>
     Read c chacha_KeySize w1 = (Inr cek, w2) \<and>
     recipientPubKeys = built @ recKey # rest \<and>
     buildRecipients c cek sender built w2 = (Inr rs, w3) \<and>
     buildRecipient c cek sender recKey w3 = (Inl e, w') \<longrightarrow>
       buildRecipients c cek sender recipientPubKeys w2 = (Inl e, w') \<and>
       Encrypt c payload sender recipientPubKeys w = (Inl e, w')) \<and>
    (Read c chacha_NonceSize w = (Inr nonce, w1) \<and>
     Read c chacha_KeySize w1 = (Inr cek, w2) \<and>
     buildRecipients c cek sender recipientPubKeys w2 = (Inr recipients, w3) \<and>
     buildEnvelope c nonce payload cek
       \<lparr>Enc = ''chacha20poly1305_ietf'', Typ = ''JWM/1.0'', Alg = ''Authcrypt'',
        Recipients = recipients\<rparr> w3 = (Inl e, w') \<longrightarrow>
       Encrypt c payload sender recipientPubKeys w = (Inl e, w')) \<and>
    (randSource_Read c 24 v = (Inl e, v') \<longrightarrow>
       buildRecipient c key sender recKey v = (Inl e, v')) \<and>
    (Read c 24 v = (Inr wrapNonce, va) \<and>
     kms_ConvertToEncryptionKey c sender va = (Inl e, v') \<longrightarrow>
       buildRecipient c key sender recKey v = (Inl e, v')) \<and>
    (Read c 24 v = (Inr wrapNonce, va) \<and>
     kms_ConvertToEncryptionKey c sender va = (Inr senderEncKey, v') \<and>
     cryptoutil_PublicEd25519toCurve25519 c recKey = Inl e \<longrightarrow>
       buildRecipient c key sender recKey v = (Inl e, v')) \<and>
    (Read c 24 v = (Inr wrapNonce, va) \<and>
     kms_ConvertToEncryptionKey c sender va = (Inr senderEncKey, vb) \<and>
     cryptoutil_PublicEd25519toCurve25519 c recKey = Inr recEncKey \<and>
     kms_NewCryptoBox c vb = (Inl e, v') \<longrightarrow>
       buildRecipient c key sender recKey v = (Inl e, v')) \<and>
    (Read c 24 v = (Inr wrapNonce, va) \<and>
     kms_ConvertToEncryptionKey c sender va = (Inr senderEncKey, vb) \<and>
     cryptoutil_PublicEd25519toCurve25519 c recKey = Inr recEncKey \<and>
     kms_NewCryptoBox c vb = (Inr bx, vc) \<and>
     Easy bx key wrapNonce recEncKey senderEncKey vc = (Inl e, v') \<longrightarrow>
       buildRecipient c key sender recKey v = (Inl e, v')) \<and>
    (Read c 24 v = (Inr wrapNonce, va) \<and>
     kms_ConvertToEncryptionKey c sender va = (Inr senderEncKey, vb) \<and>
     cryptoutil_PublicEd25519toCurve25519 c recKey = Inr recEncKey \<and>
     kms_NewCryptoBox c vb = (Inr bx, vc) \<and>
     Easy bx key wrapNonce recEncKey senderEncKey vc = (Inr encCEK, vd) \<and>
     Seal bx (base58_Encode c sender) recEncKey vd = (Inl e, v') \<longrightarrow>
       buildRecipient c key sender recKey v = (Inl e, v')) \<and>
    (json_Marshal c (protected_json p) = Inl e \<longrightarrow>
       buildEnvelope c nonce payload key p v = (Inl e, v)) \<and>
    (json_Marshal c (protected_json p) = Inr protectedBytes \<and>
     chacha_New c key = Inl e \<longrightarrow>
       buildEnvelope c nonce payload key p v = (Inl e, v)) \<and>
    (json_Marshal c (protected_json p) = Inr protectedBytes \<and>
     chacha_New c key = Inr chachaCipher \<and>
     symPld = chachaCipher nonce payload (base64_EncodeToString c protectedBytes) \<and>
     poly1305_TagSize \<le> length symPld \<and>
     json_Marshal c (legacyEnvelope_json
       \<lparr>Protected = base64_EncodeToString c protectedBytes,
        EnvIV = base64_EncodeToString c nonce,
        CipherText = base64_EncodeToString c (take (length symPld - poly1305_TagSize) symPld),
        Tag = base64_EncodeToString c (drop (length symPld - poly1305_TagSize) symPld)\<rparr>) = Inl e \<longrightarrow>
       buildEnvelope c nonce payload key p v = (Inl e, v))"
proof -
  have ne: "length recipientPubKeys \<noteq> 0" using assms by simp
  have read_fail: "randSource_Read c n x = (Inl e, x') \<Longrightarrow> Read c n x = (Inl e, x')" for n x x'
    by (simp add: Read_Inl)
  have s1: "randSource_Read c chacha_NonceSize w = (Inl e, w') \<longrightarrow>
       Encrypt c payload sender recipientPubKeys w = (Inl e, w')"
    using ne by (auto simp: Encrypt_def andThen_def dest!: read_fail)
  have s2: "Read c chacha_NonceSize w = (Inr nonce, w1) \<and>
     randSource_Read c chacha_KeySize w1 = (Inl e, w') \<longrightarrow>
       Encrypt c payload sender recipientPubKeys w = (Inl e, w')"
    using ne by (auto simp: Encrypt_def andThen_def dest!: read_fail)
  have s3: "Read c chacha_NonceSize w = (Inr nonce, w1) \<and>
     Read c chacha_KeySize w1 = (Inr cek, w2) \<and>
     recipientPubKeys = built @ recKey # rest \<and>
     buildRecipients c cek sender built w2 = (Inr rs, w3) \<and>
     buildRecipient c cek sender recKey w3 = (Inl e, w') \<longrightarrow>
       buildRecipients c cek sender recipientPubKeys w2 = (Inl e, w') \<and>
       Encrypt c payload sender recipientPubKeys w = (Inl e, w')"
  proof (intro impI, elim conjE)
    assume a: "Read c chacha_NonceSize w = (Inr nonce, w1)" "Read c chacha_KeySize w1 = (Inr cek, w2)"
      "recipientPubKeys = built @ recKey # rest"
      "buildRecipients c cek sender built w2 = (Inr rs, w3)"
      "buildRecipient c cek sender recKey w3 = (Inl e, w')"
    have f: "buildRecipients c cek sender recipientPubKeys w2 = (Inl e, w')"
      unfolding a(3) using a(4,5) by (rule buildRecipients_first_failure)
    with a(1,2) ne show "buildRecipients c cek sender recipientPubKeys w2 = (Inl e, w') \<and>
       Encrypt c payload sender recipientPubKeys w = (Inl e, w')"
      by (simp add: Encrypt_def andThen_def)
  qed
  have s4: "Read c chacha_NonceSize w = (Inr nonce, w1) \<and>
     Read c chacha_KeySize w1 = (Inr cek, w2) \<and>
     buildRecipients c cek sender recipientPubKeys w2 = (Inr recipients, w3) \<and>
     buildEnvelope c nonce payload cek
       \<lparr>Enc = ''chacha20poly1305_ietf'', Typ = ''JWM/1.0'', Alg = ''Authcrypt'',
        Recipients = recipients\<rparr> w3 = (Inl e, w') \<longrightarrow>
       Encrypt c payload sender recipientPubKeys w = (Inl e, w')"
    using ne by (simp add: Encrypt_def andThen_def)
  have r1: "randSource_Read c 24 v = (Inl e, v') \<longrightarrow>
       buildRecipient c key sender recKey v = (Inl e, v')"
    by (auto simp: buildRecipient_def andThen_def dest!: read_fail)
  have r2: "Read c 24 v = (Inr wrapNonce, va) \<and>
     kms_ConvertToEncryptionKey c sender va = (Inl e, v') \<longrightarrow>
       buildRecipient c key sender recKey v = (Inl e, v')"
    by (simp add: buildRecipient_def andThen_def)
  have r3: "Read c 24 v = (Inr wrapNonce, va) \<and>
     kms_ConvertToEncryptionKey c sender va = (Inr senderEncKey, v') \<and>
     cryptoutil_PublicEd25519toCurve25519 c recKey = Inl e \<longrightarrow>
       buildRecipient c key sender recKey v = (Inl e, v')"
    by (simp add: buildRecipient_def andThen_def pure_call_def)
  have r4: "Read c 24 v = (Inr wrapNonce, va) \<and>
     kms_ConvertToEncryptionKey c sender va = (Inr senderEncKey, vb) \<and>
     cryptoutil_PublicEd25519toCurve25519 c recKey = Inr recEncKey \<and>
     kms_NewCryptoBox c vb = (Inl e, v') \<longrightarrow>
       buildRecipient c key sender recKey v = (Inl e, v')"
    by (simp add: buildRecipient_def andThen_def pure_call_def)
  have r5: "Read c 24 v = (Inr wrapNonce, va) \<and>
     kms_ConvertToEncryptionKey c sender va = (Inr senderEncKey, vb) \<and>
     cryptoutil_PublicEd25519toCurve25519 c recKey = Inr recEncKey \<and>
     kms_NewCryptoBox c vb = (Inr bx, vc) \<and>
     Easy bx key wrapNonce recEncKey senderEncKey vc = (Inl e, v') \<longrightarrow>
       buildRecipient c key sender recKey v = (Inl e, v')"
    by (simp add: buildRecipient_def andThen_def pure_call_def)
  have r6: "Read c 24 v = (Inr wrapNonce, va) \<and>
     kms_ConvertToEncryptionKey c sender va = (Inr senderEncKey, vb) \<and>
     cryptoutil_PublicEd25519toCurve25519 c recKey = Inr recEncKey \<and>
     kms_NewCryptoBox c vb = (Inr bx, vc) \<and>
     Easy bx key wrapNonce recEncKey senderEncKey vc = (Inr encCEK, vd) \<and>
     Seal bx (base58_Encode c sender) recEncKey vd = (Inl e, v') \<longrightarrow>
       buildRecipient c key sender recKey v = (Inl e, v')"
    by (simp add: buildRecipient_def andThen_def pure_call_def)
  have e1: "json_Marshal c (protected_json p) = Inl e \<longrightarrow>
       buildEnvelope c nonce payload key p v = (Inl e, v)"
    by (simp add: buildEnvelope_def andThen_def pure_call_def)
  have e2: "json_Marshal c (protected_json p) = Inr protectedBytes \<and>
     chacha_New c key = Inl e \<longrightarrow>
       buildEnvelope c nonce payload key p v = (Inl e, v)"
    by (simp add: buildEnvelope_def andThen_def pure_call_def Let_def)
  have e3: "json_Marshal c (protected_json p) = Inr protectedBytes \<and>
     chacha_New c key = Inr chachaCipher \<and>
     symPld = chachaCipher nonce payload (base64_EncodeToString c protectedBytes) \<and>
     poly1305_TagSize \<le> length symPld \<and>
     json_Marshal c (legacyEnvelope_json
       \<lparr>Protected = base64_EncodeToString c protectedBytes,
        EnvIV = base64_EncodeToString c nonce,
        CipherText = base64_EncodeToString c (take (length symPld - poly1305_TagSize) symPld),
        Tag = base64_EncodeToString c (drop (length symPld - poly1305_TagSize) symPld)\<rparr>) = Inl e \<longrightarrow>
       buildEnvelope c nonce payload key p v = (Inl e, v)"
    by (auto simp: buildEnvelope_def andThen_def pure_call_def Let_def)
  from s1 s2 s3 s4 r1 r2 r3 r4 r5 r6 e1 e2 e3 show ?thesis by (intro conjI)
qed
theorem Encrypt_failure_returns_the_error_witness:
  "randSource_Read toy_rand_fails chacha_NonceSize 0 = (Inl (GoError ''EOF''), 0) \<and>
   Encrypt toy_rand_fails ''hi'' ''S'' [''R''] 0 = (Inl (GoError ''EOF''), 0) \<and>
   kms_ConvertToEncryptionKey toy_convert_fails ''S'' 3 = (Inl (GoError ''EOF''), 3) \<and>
   buildRecipient toy_convert_fails (replicate 32 (CHR ''y'')) ''S'' ''R'' 2 = (Inl (GoError ''EOF''), 3) \<and>
   buildRecipients toy_convert_fails (replicate 32 (CHR ''y'')) ''S'' [''R''] 2 = (Inl (GoError ''EOF''), 3) \<and>
   Encrypt toy_convert_fails ''hi'' ''S'' [''R''] 0 = (Inl (GoError ''EOF''), 3)"
proof -
  have ne: "[''R''] \<noteq> []" by simp
  have h1: "randSource_Read toy_rand_fails chacha_NonceSize 0 = (Inl (GoError ''EOF''), 0)"
    by (simp add: toy_rand_fails_def toy_def)
  have a: "Encrypt toy_rand_fails ''hi'' ''S'' [''R''] 0 = (Inl (GoError ''EOF''), 0)"
    by (rule Encrypt_failure_returns_the_error [OF ne, THEN conjunct1, THEN mp, OF h1])
  have g1: "Read toy_convert_fails chacha_NonceSize 0 = (Inr (replicate 12 (CHR ''x'')), 1)"
    by (simp add: toy_convert_fails_def toy_def Read_def andThen_def return_ok_def chacha_NonceSize_def)
  have g2: "Read toy_convert_fails chacha_KeySize 1 = (Inr (replicate 32 (CHR ''y'')), 2)"
    by (simp add: toy_convert_fails_def toy_def Read_def andThen_def return_ok_def chacha_KeySize_def)
  have g3: "Read toy_convert_fails 24 2 = (Inr (replicate 24 (CHR ''x'')), 3)"
    by (simp add: toy_convert_fails_def toy_def Read_def andThen_def return_ok_def)
  have g4: "kms_ConvertToEncryptionKey toy_convert_fails ''S'' 3 = (Inl (GoError ''EOF''), 3)"
    by (simp add: toy_convert_fails_def toy_def)
  have g5: "buildRecipients toy_convert_fails (replicate 32 (CHR ''y'')) ''S'' [] 2 = (Inr [], 2)"
    by (simp add: buildRecipients_def return_ok_def)
  have g6: "[''R''] = [] @ ''R'' # []" by simp
  have b: "buildRecipient toy_convert_fails (replicate 32 (CHR ''y'')) ''S'' ''R'' 2 = (Inl (GoError ''EOF''), 3)"
    by (rule Encrypt_failure_returns_the_error
          [OF ne, THEN conjunct2, THEN conjunct2, THEN conjunct2, THEN conjunct2, THEN conjunct2,
           THEN conjunct1, THEN mp, OF conjI [OF g3 g4]])
  have cd: "buildRecipients toy_convert_fails (replicate 32 (CHR ''y'')) ''S'' [''R''] 2 = (Inl (GoError ''EOF''), 3) \<and>
      Encrypt toy_convert_fails ''hi'' ''S'' [''R''] 0 = (Inl (GoError ''EOF''), 3)"
    by (rule Encrypt_failure_returns_the_error
          [OF ne, THEN conjunct2, THEN conjunct2, THEN conjunct1, THEN mp,
           OF conjI [OF g1 conjI [OF g2 conjI [OF g6 conjI [OF g5 b]]]]])
  from h1 a g4 b cd show ?thesis by blast
qed

text \<open>
  C8 as stated asks for an error that identifies the stage. A randomness source and a
  key service that fail with the same error give the same result of \<open>Encrypt\<close>: the
  error is handed on as it came, and nothing in it names the stage.
\<close>

theorem Encrypt_error_names_no_stage:
  "fst (Encrypt toy_rand_fails ''hi'' ''S'' [''R''] 0) = Inl (GoError ''EOF'') \<and>
   fst (Encrypt toy_convert_fails ''hi'' ''S'' [''R''] 0) = Inl (GoError ''EOF'')"
  by (simp add: toy_rand_fails_def toy_convert_fails_def toy_defs eval_nat_numeral)

text \<open>
  C9, as the code has it. Take two successful calls with the same payload, sender and
  recipients, an injective base64 encoding, a cipher whose sealed outputs differ under
  different keys and different nonces, and a box whose outputs differ for different
  secrets. If the randomness source yields different payload nonces and different
  content keys, the two envelopes differ in their \<open>iv\<close>, in their pair of
  \<open>ciphertext\<close> and \<open>tag\<close>, and in the \<open>encrypted_key\<close> of every recipient. The
  \<open>ciphertext\<close> fields alone differ when the cipher gives this payload different
  ciphertext parts under different keys and nonces, which no cipher does for the empty
  payload.
\<close>

theorem Encrypt_fresh:
  assumes run1: "Encrypt c payload sender recipientPubKeys w = (Inr out1, w')"
    and run2: "Encrypt c payload sender recipientPubKeys v = (Inr out2, v')"
    and inj: "inj (base64_EncodeToString c)"
    and aead: "\<And>k1 k2 ch1 ch2 n1 n2 a1 a2.
        chacha_New c k1 = Inr ch1 \<Longrightarrow> chacha_New c k2 = Inr ch2 \<Longrightarrow> k1 \<noteq> k2 \<Longrightarrow> n1 \<noteq> n2 \<Longrightarrow>
        length n1 = chacha_NonceSize \<Longrightarrow> length n2 = chacha_NonceSize \<Longrightarrow>
        ch1 n1 payload a1 \<noteq> ch2 n2 payload a2"
    and box: "\<And>bx1 bx2 wx wa wb vx va vb k1 k2 n1 n2 r s1 s2 b1 b2.
        kms_NewCryptoBox c wx = (Inr bx1, wa) \<Longrightarrow> kms_NewCryptoBox c vx = (Inr bx2, va) \<Longrightarrow>
        Easy bx1 k1 n1 r s1 wa = (Inr b1, wb) \<Longrightarrow> Easy bx2 k2 n2 r s2 va = (Inr b2, vb) \<Longrightarrow>
        k1 \<noteq> k2 \<Longrightarrow> b1 \<noteq> b2"
  shows "\<exists>nonce1 w1 cek1 w2 rs1 protectedBytes1 env1 nonce2 v1 cek2 v2 rs2 protectedBytes2 env2.
     Read c chacha_NonceSize w = (Inr nonce1, w1) \<and>
     Read c chacha_KeySize w1 = (Inr cek1, w2) \<and>
     buildRecipients c cek1 sender recipientPubKeys w2 = (Inr rs1, w') \<and>
     json_Marshal c (protected_json
        \<lparr>Enc = ''chacha20poly1305_ietf'', Typ = ''JWM/1.0'', Alg = ''Authcrypt'',
         Recipients = rs1\<rparr>) = Inr protectedBytes1 \<and>
     Protected env1 = base64_EncodeToString c protectedBytes1 \<and>
     json_Marshal c (legacyEnvelope_json env1) = Inr out1 \<and>
     Read c chacha_NonceSize v = (Inr nonce2, v1) \<and>
     Read c chacha_KeySize v1 = (Inr cek2, v2) \<and>
     buildRecipients c cek2 sender recipientPubKeys v2 = (Inr rs2, v') \<and>
     json_Marshal c (protected_json
        \<lparr>Enc = ''chacha20poly1305_ietf'', Typ = ''JWM/1.0'', Alg = ''Authcrypt'',
         Recipients = rs2\<rparr>) = Inr protectedBytes2 \<and>
     Protected env2 = base64_EncodeToString c protectedBytes2 \<and>
     json_Marshal c (legacyEnvelope_json env2) = Inr out2 \<and>
     (nonce1 \<noteq> nonce2 \<and> cek1 \<noteq> cek2 \<longrightarrow>
        EnvIV env1 \<noteq> EnvIV env2 \<and>
        (CipherText env1, Tag env1) \<noteq> (CipherText env2, Tag env2) \<and>
        (\<forall>i<length recipientPubKeys. EncryptedKey (rs1 ! i) \<noteq> EncryptedKey (rs2 ! i)) \<and>
        ((\<forall>k1 k2 ch1 ch2 n1 n2 a1 a2.
            chacha_New c k1 = Inr ch1 \<and> chacha_New c k2 = Inr ch2 \<and> k1 \<noteq> k2 \<and> n1 \<noteq> n2 \<and>
            length n1 = chacha_NonceSize \<and> length n2 = chacha_NonceSize \<longrightarrow>
            take (length (ch1 n1 payload a1) - poly1305_TagSize) (ch1 n1 payload a1) \<noteq>
            take (length (ch2 n2 payload a2) - poly1305_TagSize) (ch2 n2 payload a2)) \<longrightarrow>
         CipherText env1 \<noteq> CipherText env2))"
proof -
  have b64_eq: "base64_EncodeToString c x = base64_EncodeToString c y \<longleftrightarrow> x = y" for x y
    using inj by (auto dest: injD)
  from run1 obtain nonce1 w1 cek1 w2 rs1 protectedBytes1 cipher1 symPld1 env1 where
    a: "Read c chacha_NonceSize w = (Inr nonce1, w1)"
       "Read c chacha_KeySize w1 = (Inr cek1, w2)"
       "buildRecipients c cek1 sender recipientPubKeys w2 = (Inr rs1, w')"
       "json_Marshal c (protected_json
          \<lparr>Enc = ''chacha20poly1305_ietf'', Typ = ''JWM/1.0'', Alg = ''Authcrypt'',
           Recipients = rs1\<rparr>) = Inr protectedBytes1"
    and new1: "chacha_New c cek1 = Inr cipher1"
    and sym1: "symPld1 = cipher1 nonce1 payload (base64_EncodeToString c protectedBytes1)"
    and env1: "env1 = \<lparr>Protected = base64_EncodeToString c protectedBytes1,
            EnvIV = base64_EncodeToString c nonce1,
            CipherText = base64_EncodeToString c (take (length symPld1 - poly1305_TagSize) symPld1),
            Tag = base64_EncodeToString c (drop (length symPld1 - poly1305_TagSize) symPld1)\<rparr>"
    and out1: "json_Marshal c (legacyEnvelope_json env1) = Inr out1"
    by (rule Encrypt_success_env)
  from run2 obtain nonce2 v1 cek2 v2 rs2 protectedBytes2 cipher2 symPld2 env2 where
    b: "Read c chacha_NonceSize v = (Inr nonce2, v1)"
       "Read c chacha_KeySize v1 = (Inr cek2, v2)"
       "buildRecipients c cek2 sender recipientPubKeys v2 = (Inr rs2, v')"
       "json_Marshal c (protected_json
          \<lparr>Enc = ''chacha20poly1305_ietf'', Typ = ''JWM/1.0'', Alg = ''Authcrypt'',
           Recipients = rs2\<rparr>) = Inr protectedBytes2"
    and new2: "chacha_New c cek2 = Inr cipher2"
    and sym2: "symPld2 = cipher2 nonce2 payload (base64_EncodeToString c protectedBytes2)"
    and env2: "env2 = \<lparr>Protected = base64_EncodeToString c protectedBytes2,
            EnvIV = base64_EncodeToString c nonce2,
            CipherText = base64_EncodeToString c (take (length symPld2 - poly1305_TagSize) symPld2),
            Tag = base64_EncodeToString c (drop (length symPld2 - poly1305_TagSize) symPld2)\<rparr>"
    and out2: "json_Marshal c (legacyEnvelope_json env2) = Inr out2"
    by (rule Encrypt_success_env)
  have p1: "Protected env1 = base64_EncodeToString c protectedBytes1" by (simp add: env1)
  have p2: "Protected env2 = base64_EncodeToString c protectedBytes2" by (simp add: env2)
  have fresh: "nonce1 \<noteq> nonce2 \<and> cek1 \<noteq> cek2 \<longrightarrow>
        EnvIV env1 \<noteq> EnvIV env2 \<and>
        (CipherText env1, Tag env1) \<noteq> (CipherText env2, Tag env2) \<and>
        (\<forall>i<length recipientPubKeys. EncryptedKey (rs1 ! i) \<noteq> EncryptedKey (rs2 ! i)) \<and>
        ((\<forall>k1 k2 ch1 ch2 n1 n2 a1 a2.
            chacha_New c k1 = Inr ch1 \<and> chacha_New c k2 = Inr ch2 \<and> k1 \<noteq> k2 \<and> n1 \<noteq> n2 \<and>
            length n1 = chacha_NonceSize \<and> length n2 = chacha_NonceSize \<longrightarrow>
            take (length (ch1 n1 payload a1) - poly1305_TagSize) (ch1 n1 payload a1) \<noteq>
            take (length (ch2 n2 payload a2) - poly1305_TagSize) (ch2 n2 payload a2)) \<longrightarrow>
         CipherText env1 \<noteq> CipherText env2)"
  proof (intro impI, elim conjE)
    assume nonces: "nonce1 \<noteq> nonce2" and ceks: "cek1 \<noteq> cek2"
    have iv: "EnvIV env1 \<noteq> EnvIV env2"
      using nonces by (simp add: env1 env2 b64_eq)
    have sealed: "symPld1 \<noteq> symPld2"
      unfolding sym1 sym2
      using new1 new2 ceks nonces Read_length [OF a(1)] Read_length [OF b(1)] by (rule aead)
    have pair: "(CipherText env1, Tag env1) \<noteq> (CipherText env2, Tag env2)"
    proof
      assume "(CipherText env1, Tag env1) = (CipherText env2, Tag env2)"
      then have "take (length symPld1 - poly1305_TagSize) symPld1 =
                 take (length symPld2 - poly1305_TagSize) symPld2"
        and "drop (length symPld1 - poly1305_TagSize) symPld1 =
             drop (length symPld2 - poly1305_TagSize) symPld2"
        by (simp_all add: env1 env2 b64_eq)
      then have "take (length symPld1 - poly1305_TagSize) symPld1 @
                 drop (length symPld1 - poly1305_TagSize) symPld1 =
                 take (length symPld2 - poly1305_TagSize) symPld2 @
                 drop (length symPld2 - poly1305_TagSize) symPld2"
        by simp
      then have "symPld1 = symPld2" by simp
      with sealed show False by simp
    qed
    have keys: "\<forall>i<length recipientPubKeys. EncryptedKey (rs1 ! i) \<noteq> EncryptedKey (rs2 ! i)"
    proof (intro allI impI)
      fix i assume i: "i < length recipientPubKeys"
      from buildRecipients_Inr(2) [OF a(3) i] obtain x x' where
        "buildRecipient c cek1 sender (recipientPubKeys ! i) x = (Inr (rs1 ! i), x')" by blast
      then obtain wrapNonce1 senderEncKey1 recEncKey bx1 encCEK1 encSender1 wx wa wb where
        p: "cryptoutil_PublicEd25519toCurve25519 c (recipientPubKeys ! i) = Inr recEncKey"
           "kms_NewCryptoBox c wx = (Inr bx1, wa)"
           "Easy bx1 cek1 wrapNonce1 recEncKey senderEncKey1 wa = (Inr encCEK1, wb)"
        and r1: "rs1 ! i =
              \<lparr>EncryptedKey = base64_EncodeToString c encCEK1,
               Header = \<lparr>KID = base58_Encode c (recipientPubKeys ! i),
                         Sender = base64_EncodeToString c encSender1,
                         IV = base64_EncodeToString c wrapNonce1\<rparr>\<rparr>"
        unfolding buildRecipient_Inr by blast
      from buildRecipients_Inr(2) [OF b(3) i] obtain y y' where
        "buildRecipient c cek2 sender (recipientPubKeys ! i) y = (Inr (rs2 ! i), y')" by blast
      then obtain wrapNonce2 senderEncKey2 recEncKey' bx2 encCEK2 encSender2 vx va vb where
        q: "cryptoutil_PublicEd25519toCurve25519 c (recipientPubKeys ! i) = Inr recEncKey'"
           "kms_NewCryptoBox c vx = (Inr bx2, va)"
           "Easy bx2 cek2 wrapNonce2 recEncKey' senderEncKey2 va = (Inr encCEK2, vb)"
        and r2: "rs2 ! i =
              \<lparr>EncryptedKey = base64_EncodeToString c encCEK2,
               Header = \<lparr>KID = base58_Encode c (recipientPubKeys ! i),
                         Sender = base64_EncodeToString c encSender2,
                         IV = base64_EncodeToString c wrapNonce2\<rparr>\<rparr>"
        unfolding buildRecipient_Inr by blast
      from p(1) q(1) have same: "recEncKey' = recEncKey" by simp
      have "encCEK1 \<noteq> encCEK2"
        using p(2) q(2) p(3) q(3) [unfolded same] ceks by (rule box)
      then show "EncryptedKey (rs1 ! i) \<noteq> EncryptedKey (rs2 ! i)"
        by (simp add: r1 r2 b64_eq)
    qed
    have ct: "((\<forall>k1 k2 ch1 ch2 n1 n2 a1 a2.
            chacha_New c k1 = Inr ch1 \<and> chacha_New c k2 = Inr ch2 \<and> k1 \<noteq> k2 \<and> n1 \<noteq> n2 \<and>
            length n1 = chacha_NonceSize \<and> length n2 = chacha_NonceSize \<longrightarrow>
            take (length (ch1 n1 payload a1) - poly1305_TagSize) (ch1 n1 payload a1) \<noteq>
            take (length (ch2 n2 payload a2) - poly1305_TagSize) (ch2 n2 payload a2)) \<longrightarrow>
         CipherText env1 \<noteq> CipherText env2)"
    proof
      assume fresh_ct: "\<forall>k1 k2 ch1 ch2 n1 n2 a1 a2.
            chacha_New c k1 = Inr ch1 \<and> chacha_New c k2 = Inr ch2 \<and> k1 \<noteq> k2 \<and> n1 \<noteq> n2 \<and>
            length n1 = chacha_NonceSize \<and> length n2 = chacha_NonceSize \<longrightarrow>
            take (length (ch1 n1 payload a1) - poly1305_TagSize) (ch1 n1 payload a1) \<noteq>
            take (length (ch2 n2 payload a2) - poly1305_TagSize) (ch2 n2 payload a2)"
      have "take (length symPld1 - poly1305_TagSize) symPld1 \<noteq>
            take (length symPld2 - poly1305_TagSize) symPld2"
        unfolding sym1 sym2
        using fresh_ct new1 new2 ceks nonces Read_length [OF a(1)] Read_length [OF b(1)] by blast
      then show "CipherText env1 \<noteq> CipherText env2"
        by (simp add: env1 env2 b64_eq)
    qed
    from iv pair keys ct
    show "EnvIV env1 \<noteq> EnvIV env2 \<and>
        (CipherText env1, Tag env1) \<noteq> (CipherText env2, Tag env2) \<and>
        (\<forall>i<length recipientPubKeys. EncryptedKey (rs1 ! i) \<noteq> EncryptedKey (rs2 ! i)) \<and>
        ((\<forall>k1 k2 ch1 ch2 n1 n2 a1 a2.
            chacha_New c k1 = Inr ch1 \<and> chacha_New c k2 = Inr ch2 \<and> k1 \<noteq> k2 \<and> n1 \<noteq> n2 \<and>
            length n1 = chacha_NonceSize \<and> length n2 = chacha_NonceSize \<longrightarrow>
            take (length (ch1 n1 payload a1) - poly1305_TagSize) (ch1 n1 payload a1) \<noteq>
            take (length (ch2 n2 payload a2) - poly1305_TagSize) (ch2 n2 payload a2)) \<longrightarrow>
         CipherText env1 \<noteq> CipherText env2)"
      by (intro conjI)
  qed
  show ?thesis
    by (intro exI conjI) (rule a p1 out1 b p2 out2 fresh)+
qed
theorem Encrypt_fresh_witness:
  "Encrypt toy2 ''hello, world'' ''S'' [''R''] 0 = (Inr (toy2_envelope ''hello, world'' (replicate 12 (CHR ''x'')) (replicate 32 (CHR ''y'')) (replicate 24 (CHR ''x''))), 4) \<and>
   Encrypt toy2 ''hello, world'' ''S'' [''R''] 1 = (Inr (toy2_envelope ''hello, world'' (replicate 12 (CHR ''y'')) (replicate 32 (CHR ''x'')) (replicate 24 (CHR ''y''))), 5) \<and>
   inj (base64_EncodeToString toy2) \<and>
   Read toy2 chacha_NonceSize 0 = (Inr (replicate 12 (CHR ''x'')), 1) \<and>
   Read toy2 chacha_NonceSize 1 = (Inr (replicate 12 (CHR ''y'')), 2) \<and>
   Read toy2 chacha_KeySize 1 = (Inr (replicate 32 (CHR ''y'')), 2) \<and>
   Read toy2 chacha_KeySize 2 = (Inr (replicate 32 (CHR ''x'')), 3) \<and>
   replicate 12 (CHR ''x'') \<noteq> replicate 12 (CHR ''y'') \<and>
   replicate 32 (CHR ''y'') \<noteq> replicate 32 (CHR ''x'') \<and>
   (\<exists>rs1 env1 rs2 env2.
      buildRecipients toy2 (replicate 32 (CHR ''y'')) ''S'' [''R''] 2 = (Inr rs1, 4) \<and>
      json_Marshal toy2 (legacyEnvelope_json env1) = Inr (toy2_envelope ''hello, world'' (replicate 12 (CHR ''x'')) (replicate 32 (CHR ''y'')) (replicate 24 (CHR ''x''))) \<and>
      buildRecipients toy2 (replicate 32 (CHR ''x'')) ''S'' [''R''] 3 = (Inr rs2, 5) \<and>
      json_Marshal toy2 (legacyEnvelope_json env2) = Inr (toy2_envelope ''hello, world'' (replicate 12 (CHR ''y'')) (replicate 32 (CHR ''x'')) (replicate 24 (CHR ''y''))) \<and>
      EnvIV env1 \<noteq> EnvIV env2 \<and>
      (CipherText env1, Tag env1) \<noteq> (CipherText env2, Tag env2) \<and>
      (\<forall>i<length [''R'']. EncryptedKey (rs1 ! i) \<noteq> EncryptedKey (rs2 ! i)) \<and>
      CipherText env1 \<noteq> CipherText env2)"
proof -
  have ct: "\<forall>k1 k2 ch1 ch2 n1 n2 a1 a2.
            chacha_New toy2 k1 = Inr ch1 \<and> chacha_New toy2 k2 = Inr ch2 \<and> k1 \<noteq> k2 \<and> n1 \<noteq> n2 \<and>
            length n1 = chacha_NonceSize \<and> length n2 = chacha_NonceSize \<longrightarrow>
            take (length (ch1 n1 ''hello, world'' a1) - poly1305_TagSize) (ch1 n1 ''hello, world'' a1) \<noteq>
            take (length (ch2 n2 ''hello, world'' a2) - poly1305_TagSize) (ch2 n2 ''hello, world'' a2)"
  proof (intro allI impI, elim conjE)
    fix k1 k2 :: bytes and ch1 ch2 :: aead and n1 n2 a1 a2 :: bytes
    assume h: "chacha_New toy2 k1 = Inr ch1" "chacha_New toy2 k2 = Inr ch2" "n1 \<noteq> n2"
      "length n1 = chacha_NonceSize" "length n2 = chacha_NonceSize"
    show "take (length (ch1 n1 ''hello, world'' a1) - poly1305_TagSize) (ch1 n1 ''hello, world'' a1) \<noteq>
          take (length (ch2 n2 ''hello, world'' a2) - poly1305_TagSize) (ch2 n2 ''hello, world'' a2)"
      using h toy_aead2_ciphertext_nonce [of k1 n1 "''hello, world''" a1 k2 n2 a2]
      by (auto simp: toy2_cipher chacha_NonceSize_def poly1305_TagSize_def)
  qed
  have "\<exists>nonce1 w1 cek1 w2 rs1 protectedBytes1 env1 nonce2 v1 cek2 v2 rs2 protectedBytes2 env2.
     Read toy2 chacha_NonceSize 0 = (Inr nonce1, w1) \<and>
     Read toy2 chacha_KeySize w1 = (Inr cek1, w2) \<and>
     buildRecipients toy2 cek1 ''S'' [''R''] w2 = (Inr rs1, 4) \<and>
     json_Marshal toy2 (protected_json
        \<lparr>Enc = ''chacha20poly1305_ietf'', Typ = ''JWM/1.0'', Alg = ''Authcrypt'',
         Recipients = rs1\<rparr>) = Inr protectedBytes1 \<and>
     Protected env1 = base64_EncodeToString toy2 protectedBytes1 \<and>
     json_Marshal toy2 (legacyEnvelope_json env1) = Inr (toy2_envelope ''hello, world'' (replicate 12 (CHR ''x'')) (replicate 32 (CHR ''y'')) (replicate 24 (CHR ''x''))) \<and>
     Read toy2 chacha_NonceSize 1 = (Inr nonce2, v1) \<and>
     Read toy2 chacha_KeySize v1 = (Inr cek2, v2) \<and>
     buildRecipients toy2 cek2 ''S'' [''R''] v2 = (Inr rs2, 5) \<and>
     json_Marshal toy2 (protected_json
        \<lparr>Enc = ''chacha20poly1305_ietf'', Typ = ''JWM/1.0'', Alg = ''Authcrypt'',
         Recipients = rs2\<rparr>) = Inr protectedBytes2 \<and>
     Protected env2 = base64_EncodeToString toy2 protectedBytes2 \<and>
     json_Marshal toy2 (legacyEnvelope_json env2) = Inr (toy2_envelope ''hello, world'' (replicate 12 (CHR ''y'')) (replicate 32 (CHR ''x'')) (replicate 24 (CHR ''y''))) \<and>
     (nonce1 \<noteq> nonce2 \<and> cek1 \<noteq> cek2 \<longrightarrow>
        EnvIV env1 \<noteq> EnvIV env2 \<and>
        (CipherText env1, Tag env1) \<noteq> (CipherText env2, Tag env2) \<and>
        (\<forall>i<length [''R'']. EncryptedKey (rs1 ! i) \<noteq> EncryptedKey (rs2 ! i)) \<and>
        ((\<forall>k1 k2 ch1 ch2 n1 n2 a1 a2.
            chacha_New toy2 k1 = Inr ch1 \<and> chacha_New toy2 k2 = Inr ch2 \<and> k1 \<noteq> k2 \<and> n1 \<noteq> n2 \<and>
            length n1 = chacha_NonceSize \<and> length n2 = chacha_NonceSize \<longrightarrow>
            take (length (ch1 n1 ''hello, world'' a1) - poly1305_TagSize) (ch1 n1 ''hello, world'' a1) \<noteq>
            take (length (ch2 n2 ''hello, world'' a2) - poly1305_TagSize) (ch2 n2 ''hello, world'' a2)) \<longrightarrow>
         CipherText env1 \<noteq> CipherText env2))"
    apply (rule Encrypt_fresh [OF toy2_runs(1) toy2_runs(2) toy2_base64_inj])
     apply (auto simp: toy2_cipher chacha_NonceSize_def dest: toy_aead2_nonce)[1]
    apply (auto simp: toy2_box toy_box_Easy)
    done
  then obtain nonce1 w1 cek1 w2 rs1 env1 nonce2 v1 cek2 v2 rs2 env2 where
    r1: "Read toy2 chacha_NonceSize 0 = (Inr nonce1, w1)"
        "Read toy2 chacha_KeySize w1 = (Inr cek1, w2)"
        "buildRecipients toy2 cek1 ''S'' [''R''] w2 = (Inr rs1, 4)"
        "json_Marshal toy2 (legacyEnvelope_json env1) = Inr (toy2_envelope ''hello, world'' (replicate 12 (CHR ''x'')) (replicate 32 (CHR ''y'')) (replicate 24 (CHR ''x'')))"
    and r2: "Read toy2 chacha_NonceSize 1 = (Inr nonce2, v1)"
        "Read toy2 chacha_KeySize v1 = (Inr cek2, v2)"
        "buildRecipients toy2 cek2 ''S'' [''R''] v2 = (Inr rs2, 5)"
        "json_Marshal toy2 (legacyEnvelope_json env2) = Inr (toy2_envelope ''hello, world'' (replicate 12 (CHR ''y'')) (replicate 32 (CHR ''x'')) (replicate 24 (CHR ''y'')))"
    and fresh: "nonce1 \<noteq> nonce2 \<and> cek1 \<noteq> cek2 \<longrightarrow>
        EnvIV env1 \<noteq> EnvIV env2 \<and>
        (CipherText env1, Tag env1) \<noteq> (CipherText env2, Tag env2) \<and>
        (\<forall>i<length [''R'']. EncryptedKey (rs1 ! i) \<noteq> EncryptedKey (rs2 ! i)) \<and>
        ((\<forall>k1 k2 ch1 ch2 n1 n2 a1 a2.
            chacha_New toy2 k1 = Inr ch1 \<and> chacha_New toy2 k2 = Inr ch2 \<and> k1 \<noteq> k2 \<and> n1 \<noteq> n2 \<and>
            length n1 = chacha_NonceSize \<and> length n2 = chacha_NonceSize \<longrightarrow>
            take (length (ch1 n1 ''hello, world'' a1) - poly1305_TagSize) (ch1 n1 ''hello, world'' a1) \<noteq>
            take (length (ch2 n2 ''hello, world'' a2) - poly1305_TagSize) (ch2 n2 ''hello, world'' a2)) \<longrightarrow>
         CipherText env1 \<noteq> CipherText env2)"
    by (elim exE conjE) (rule that, assumption+)
  have n1: "nonce1 = replicate 12 (CHR ''x'')" and w1: "w1 = 1"
    using r1(1) unfolding toy2_reads by simp_all
  have k1: "cek1 = replicate 32 (CHR ''y'')" and w2: "w2 = 2"
    using r1(2) unfolding w1 toy2_reads by simp_all
  have n2: "nonce2 = replicate 12 (CHR ''y'')" and v1: "v1 = 2"
    using r2(1) unfolding toy2_reads by simp_all
  have k2: "cek2 = replicate 32 (CHR ''x'')" and v2: "v2 = 3"
    using r2(2) unfolding v1 toy2_reads by simp_all
  have d1: "replicate 12 (CHR ''x'') \<noteq> replicate 12 (CHR ''y'')"
    and d2: "replicate 32 (CHR ''y'') \<noteq> replicate 32 (CHR ''x'')"
    by (simp_all add: replicate_numeral_unfold)
  from fresh d1 d2 ct
  have concl: "EnvIV env1 \<noteq> EnvIV env2"
    "(CipherText env1, Tag env1) \<noteq> (CipherText env2, Tag env2)"
    "\<forall>i<length [''R'']. EncryptedKey (rs1 ! i) \<noteq> EncryptedKey (rs2 ! i)"
    "CipherText env1 \<noteq> CipherText env2"
    unfolding n1 k1 n2 k2 by blast+
  have ex: "\<exists>rs1 env1 rs2 env2.
      buildRecipients toy2 (replicate 32 (CHR ''y'')) ''S'' [''R''] 2 = (Inr rs1, 4) \<and>
      json_Marshal toy2 (legacyEnvelope_json env1) = Inr (toy2_envelope ''hello, world'' (replicate 12 (CHR ''x'')) (replicate 32 (CHR ''y'')) (replicate 24 (CHR ''x''))) \<and>
      buildRecipients toy2 (replicate 32 (CHR ''x'')) ''S'' [''R''] 3 = (Inr rs2, 5) \<and>
      json_Marshal toy2 (legacyEnvelope_json env2) = Inr (toy2_envelope ''hello, world'' (replicate 12 (CHR ''y'')) (replicate 32 (CHR ''x'')) (replicate 24 (CHR ''y''))) \<and>
      EnvIV env1 \<noteq> EnvIV env2 \<and>
      (CipherText env1, Tag env1) \<noteq> (CipherText env2, Tag env2) \<and>
      (\<forall>i<length [''R'']. EncryptedKey (rs1 ! i) \<noteq> EncryptedKey (rs2 ! i)) \<and>
      CipherText env1 \<noteq> CipherText env2"
    by (intro exI conjI)
       (rule r1(3) [unfolded k1 w2] r1(4) r2(3) [unfolded k2 v2] r2(4) concl)+
  show ?thesis
    by (intro conjI) (rule toy2_runs toy2_base64_inj toy2_reads d1 d2 ex)+
qed

text \<open>
  C9 as stated fails, for the ciphertexts. With an empty payload, two calls that draw
  different payload nonces and different content keys return the same ciphertext, the
  encoding of no bytes (first instance). With the one-byte payload \<open>h\<close> and the
  key-stream cipher of the second instance, two calls whose nonces differ but begin with
  the same byte, and whose content keys differ, return the same one-byte ciphertext;
  the tags and the wrapped keys differ in both pairs of calls. By
  \<open>one_byte_ciphertexts_repeat\<close> every cipher that keeps the length of a one-byte
  payload repeats a ciphertext among any 257 seals.
\<close>

theorem Encrypt_same_ciphertext:
  "Read toy chacha_NonceSize 0 = (Inr ''xxxxxxxxxxxx'', 1) \<and>
   Read toy chacha_NonceSize 1 = (Inr ''yyyyyyyyyyyy'', 2) \<and>
   Read toy chacha_KeySize 1 = (Inr ''yyyyyyyyyyyyyyyyyyyyyyyyyyyyyyyy'', 2) \<and>
   Read toy chacha_KeySize 2 = (Inr ''xxxxxxxxxxxxxxxxxxxxxxxxxxxxxxxx'', 3) \<and>
   Encrypt toy [] ''S'' [''R''] 0 = (Inr toy_envelope_empty_0, 4) \<and>
   Encrypt toy [] ''S'' [''R''] 1 = (Inr toy_envelope_empty_1, 5) \<and>
   Read toy3 chacha_NonceSize 0 = (Inr ''xxxxxxxxxxxx'', 1) \<and>
   Read toy3 chacha_NonceSize 7 = (Inr ''xyyyyyyyyyyy'', 8) \<and>
   Read toy3 chacha_KeySize 1 = (Inr ''yyyyyyyyyyyyyyyyyyyyyyyyyyyyyyyy'', 2) \<and>
   Read toy3 chacha_KeySize 8 = (Inr ''xxxxxxxxxxxxxxxxxxxxxxxxxxxxxxxx'', 9) \<and>
   Encrypt toy3 ''h'' ''S'' [''R''] 0 =
     (Inr (postfix (legacyEnvelope_json
        \<lparr>Protected = postfix (protected_json
             \<lparr>Enc = ''chacha20poly1305_ietf'', Typ = ''JWM/1.0'', Alg = ''Authcrypt'',
              Recipients = [toy2_recipient ''yyyyyyyyyyyyyyyyyyyyyyyyyyyyyyyy''
                              ''xxxxxxxxxxxxxxxxxxxxxxxx'']\<rparr>) @ ''='',
         EnvIV = ''xxxxxxxxxxxx='',
         CipherText = xor_bytes ''h'' ''x'' @ ''='',
         Tag = ''xxxxxxxxxxxxyyyy=''\<rparr>)), 4) \<and>
   Encrypt toy3 ''h'' ''S'' [''R''] 7 =
     (Inr (postfix (legacyEnvelope_json
        \<lparr>Protected = postfix (protected_json
             \<lparr>Enc = ''chacha20poly1305_ietf'', Typ = ''JWM/1.0'', Alg = ''Authcrypt'',
              Recipients = [toy2_recipient ''xxxxxxxxxxxxxxxxxxxxxxxxxxxxxxxx''
                              ''yyyyyyyyyyyyyyyyyyyyyyyy'']\<rparr>) @ ''='',
         EnvIV = ''xyyyyyyyyyyy='',
         CipherText = xor_bytes ''h'' ''x'' @ ''='',
         Tag = ''xyyyyyyyyyyyxxxx=''\<rparr>)), 11)"
  by (simp add: toy_defs toy2_defs toy3_def toy_envelope_empty_0_def toy_envelope_empty_1_def
      replicate_numeral_unfold)

end
